theory Spec2Isabelle
  imports Complex_Main
begin

section \<open>Floating-point values and pandas series\<close>

text \<open>
  The analyzer of \<^verbatim>\<open>src/data_processor.py\<close> computes on pandas series of
  64-bit floats. A float is modelled as \<open>real option\<close>: \<open>None\<close> is NaN and
  \<open>Some x\<close> is the finite value \<open>x\<close>, with exact real arithmetic in place of
  rounding. Infinities are not modelled: the only divisions the source leaves
  unguarded divide by a price, by a running maximum of the wealth curve or by a
  count, and the model gives NaN where such a divisor is zero. A NaN operand
  makes every arithmetic result NaN and every ordering comparison false, while
  \<^verbatim>\<open>!=\<close> is true on NaN, as in Python.
\<close>

type_synonym pyfloat = "real option"

fun fadd :: "pyfloat \<Rightarrow> pyfloat \<Rightarrow> pyfloat" where
  "fadd (Some x) (Some y) = Some (x + y)"
| "fadd _ _ = None"

fun fsub :: "pyfloat \<Rightarrow> pyfloat \<Rightarrow> pyfloat" where
  "fsub (Some x) (Some y) = Some (x - y)"
| "fsub _ _ = None"

fun fmul :: "pyfloat \<Rightarrow> pyfloat \<Rightarrow> pyfloat" where
  "fmul (Some x) (Some y) = Some (x * y)"
| "fmul _ _ = None"

fun fdiv :: "pyfloat \<Rightarrow> pyfloat \<Rightarrow> pyfloat" where
  "fdiv (Some x) (Some y) = (if y = 0 then None else Some (x / y))"
| "fdiv _ _ = None"

fun fgt :: "pyfloat \<Rightarrow> pyfloat \<Rightarrow> bool" where
  "fgt (Some x) (Some y) = (x > y)"
| "fgt _ _ = False"

fun flt :: "pyfloat \<Rightarrow> pyfloat \<Rightarrow> bool" where
  "flt (Some x) (Some y) = (x < y)"
| "flt _ _ = False"

fun fle :: "pyfloat \<Rightarrow> pyfloat \<Rightarrow> bool" where
  "fle (Some x) (Some y) = (x \<le> y)"
| "fle _ _ = False"

fun fne :: "pyfloat \<Rightarrow> pyfloat \<Rightarrow> bool" where
  "fne (Some x) (Some y) = (x \<noteq> y)"
| "fne _ _ = True"

text \<open>
  Python's builtin \<^verbatim>\<open>min(a, b)\<close> returns \<open>a\<close> unless \<open>b < a\<close>, and
  \<^verbatim>\<open>max(a, b)\<close> returns \<open>a\<close> unless \<open>b > a\<close>; with a NaN second argument
  both return the first.
\<close>

definition py_min :: "pyfloat \<Rightarrow> pyfloat \<Rightarrow> pyfloat" where
  "py_min a b = (if flt b a then b else a)"

definition py_max :: "pyfloat \<Rightarrow> pyfloat \<Rightarrow> pyfloat" where
  "py_max a b = (if fgt b a then b else a)"

text \<open>
  \<^verbatim>\<open>x ** y\<close> on numpy floats, for \<open>y > 0\<close>: a negative base with a
  fractional exponent is NaN. The base here is the product of \<open>1 + r\<close> over
  the returns, which is negative only for a return below -100 percent.
\<close>

definition fpow :: "real \<Rightarrow> real \<Rightarrow> pyfloat" where
  "fpow b e = (if b < 0 then None else Some (b powr e))"

subsection \<open>Series operations\<close>

text \<open>A series is the list of its values in index order.\<close>

fun dropna :: "pyfloat list \<Rightarrow> real list" where
  "dropna [] = []"
| "dropna (None # xs) = dropna xs"
| "dropna (Some x # xs) = x # dropna xs"

text \<open>\<^verbatim>\<open>fillna(method='ffill')\<close>: an explicit scan carrying the last defined value.\<close>

fun ffill_from :: "pyfloat \<Rightarrow> pyfloat list \<Rightarrow> pyfloat list" where
  "ffill_from prev [] = []"
| "ffill_from prev (None # xs) = prev # ffill_from prev xs"
| "ffill_from prev (Some x # xs) = Some x # ffill_from (Some x) xs"

definition ffill :: "pyfloat list \<Rightarrow> pyfloat list" where
  "ffill xs = ffill_from None xs"

definition fillna :: "real \<Rightarrow> pyfloat list \<Rightarrow> pyfloat list" where
  "fillna v xs = map (\<lambda>x. case x of None \<Rightarrow> Some v | Some y \<Rightarrow> Some y) xs"

text \<open>\<^verbatim>\<open>shift(1)\<close>: every value moves one position later, the first becomes NaN.\<close>

definition shift1 :: "pyfloat list \<Rightarrow> pyfloat list" where
  "shift1 xs = (if xs = [] then [] else None # butlast xs)"

text \<open>
  \<^verbatim>\<open>pct_change()\<close> pads missing values forward first (the default
  \<^verbatim>\<open>fill_method='pad'\<close> of the pandas versions that still accept
  \<^verbatim>\<open>fillna(method='ffill')\<close>), then divides by the shifted series and
  subtracts one.
\<close>

definition pct_change :: "pyfloat list \<Rightarrow> pyfloat list" where
  "pct_change xs =
     (let d = ffill xs
      in map2 (\<lambda>cur prev. fsub (fdiv cur prev) (Some 1)) d (shift1 d))"

definition diff :: "pyfloat list \<Rightarrow> pyfloat list" where
  "diff xs = map2 fsub xs (shift1 xs)"

text \<open>
  \<^verbatim>\<open>rolling(window=w, min_periods=w).mean()\<close>: the mean of the last \<open>w\<close>
  values, NaN while fewer than \<open>w\<close> values exist or when one of them is NaN
  (and NaN throughout for the empty window, \<open>w = 0\<close>).
\<close>

definition window_mean :: "pyfloat list \<Rightarrow> pyfloat" where
  "window_mean ys =
     (if ys = [] \<or> None \<in> set ys then None
      else Some (sum_list (dropna ys) / real (length ys)))"

definition rolling_mean :: "nat \<Rightarrow> pyfloat list \<Rightarrow> pyfloat list" where
  "rolling_mean w xs =
     map (\<lambda>i. if i + 1 < w then None else window_mean (take w (drop (i + 1 - w) xs)))
       [0..<length xs]"

definition mean :: "real list \<Rightarrow> pyfloat" where
  "mean xs = (if xs = [] then None else Some (sum_list xs / real (length xs)))"

text \<open>\<^verbatim>\<open>Series.std()\<close>: the sample standard deviation (ddof = 1), NaN below two values.\<close>

definition std :: "real list \<Rightarrow> pyfloat" where
  "std xs =
     (if length xs < 2 then None
      else let m = sum_list xs / real (length xs)
           in Some (sqrt (sum_list (map (\<lambda>x. (x - m)\<^sup>2) xs) / real (length xs - 1))))"

fun cumprod_from :: "real \<Rightarrow> real list \<Rightarrow> real list" where
  "cumprod_from acc [] = []"
| "cumprod_from acc (x # xs) = (acc * x) # cumprod_from (acc * x) xs"

definition cumprod :: "real list \<Rightarrow> real list" where
  "cumprod xs = cumprod_from 1 xs"

text \<open>\<^verbatim>\<open>expanding().max()\<close>: the running maximum.\<close>

fun cummax_from :: "real \<Rightarrow> real list \<Rightarrow> real list" where
  "cummax_from m [] = []"
| "cummax_from m (x # xs) = max m x # cummax_from (max m x) xs"

definition expanding_max :: "real list \<Rightarrow> real list" where
  "expanding_max xs = (case xs of [] \<Rightarrow> [] | x # ys \<Rightarrow> x # cummax_from x ys)"

text \<open>\<^verbatim>\<open>Series.min()\<close> skips NaN and is NaN on a series with no value.\<close>

definition series_min :: "pyfloat list \<Rightarrow> pyfloat" where
  "series_min xs = (case dropna xs of [] \<Rightarrow> None | y # ys \<Rightarrow> Some (fold min ys y))"

section \<open>Metrics calculator\<close>

text \<open>
  A Python dict with string keys is a map from strings. Its values are numbers
  (Python's \<open>int\<close> and \<open>float\<close> share one constructor, \<open>0 == 0.0\<close>), signal
  labels, lists of floats and nested dicts. The source's signal labels are
  Korean strings; each is a constructor named after its meaning.
\<close>

datatype signal_label = Buy | Sell | StrongBuy | WeakBuy | StrongSell | WeakSell | NotAvailable

datatype pyval =
    VNum pyfloat
  | VLabel signal_label
  | VSeries "pyfloat list"
  | VDict "string \<Rightarrow> pyval option"

type_synonym pydict = "string \<Rightarrow> pyval option"

text \<open>\<^verbatim>\<open>d.get(key, 0)\<close> read as a number.\<close>

definition get_num :: "pydict \<Rightarrow> string \<Rightarrow> pyfloat \<Rightarrow> pyfloat" where
  "get_num d k dflt = (case d k of Some (VNum x) \<Rightarrow> x | _ \<Rightarrow> dflt)"

text \<open>
  \<^verbatim>\<open>_calculate_sortino\<close> (lines 151-161): the mean-based Sortino ratio of
  the secondary series.
\<close>

definition calculate_sortino :: "pyfloat list \<Rightarrow> pyfloat" where
  "calculate_sortino returns0 =
     (if returns0 = [] then Some 0
      else let returns = dropna returns0;
               mean_return = fmul (mean returns) (Some 252);
               downside_returns = filter (\<lambda>r. r < 0) returns;
               downside_deviation =
                 (if length downside_returns > 0
                  then fmul (std downside_returns) (Some (sqrt 252)) else Some 0)
           in if fgt downside_deviation (Some 0)
              then fdiv (fsub mean_return (Some 0.02)) downside_deviation
              else Some 0)"

text \<open>
  The metrics of \<^verbatim>\<open>calculate_enhanced_metrics\<close> (lines 103-123), one
  definition for each, on the returns that are left after \<^verbatim>\<open>dropna\<close>.
\<close>

definition total_return_of :: "real list \<Rightarrow> real" where
  "total_return_of returns = prod_list (map (\<lambda>r. 1 + r) returns) - 1"

definition cagr_of :: "real list \<Rightarrow> pyfloat" where
  "cagr_of returns =
     (let num_years = real (length returns) / 252
      in if num_years > 0
         then fsub (fpow (1 + total_return_of returns) (1 / num_years)) (Some 1)
         else Some 0)"

definition volatility_of :: "real list \<Rightarrow> pyfloat" where
  "volatility_of returns = fmul (std returns) (Some (sqrt 252))"

definition sharpe_of :: "real list \<Rightarrow> pyfloat" where
  "sharpe_of returns =
     (if fgt (volatility_of returns) (Some 0)
      then fdiv (fsub (cagr_of returns) (Some 0.02)) (volatility_of returns)
      else Some 0)"

definition downside_deviation_of :: "real list \<Rightarrow> pyfloat" where
  "downside_deviation_of returns =
     (let downside_returns = filter (\<lambda>r. r < 0) returns
      in if length downside_returns > 0
         then fmul (std downside_returns) (Some (sqrt 252)) else Some 0)"

definition sortino_of :: "real list \<Rightarrow> pyfloat" where
  "sortino_of returns =
     (if fgt (downside_deviation_of returns) (Some 0)
      then fdiv (fsub (cagr_of returns) (Some 0.02)) (downside_deviation_of returns)
      else Some 0)"

definition max_drawdown_of :: "real list \<Rightarrow> pyfloat" where
  "max_drawdown_of returns =
     (let cumulative_returns = cumprod (map (\<lambda>r. 1 + r) returns);
          rolling_max = expanding_max cumulative_returns;
          drawdowns = map2 (\<lambda>c m. fdiv (Some (c - m)) (Some m)) cumulative_returns rolling_max
      in series_min drawdowns)"

definition win_rate_of :: "real list \<Rightarrow> pyfloat" where
  "win_rate_of returns =
     (if length returns > 0
      then Some (real (length (filter (\<lambda>r. r > 0) returns)) / real (length returns))
      else Some 0)"

text \<open>
  \<^verbatim>\<open>calculate_enhanced_metrics\<close> (lines 94-149). An empty series returns
  the empty dict before anything is computed; otherwise NaN entries are dropped
  and the nine metrics are returned under their keys.
\<close>

definition calculate_enhanced_metrics :: "pyfloat list \<Rightarrow> pyfloat list option \<Rightarrow> pydict" where
  "calculate_enhanced_metrics returns0 period_returns =
     (if returns0 = [] then Map.empty
      else let returns = dropna returns0;
               sortino_ratio = sortino_of returns;
               combined_score =
                 (case period_returns of
                    Some pr \<Rightarrow>
                      fadd (fmul (Some 0.7) (calculate_sortino pr)) (fmul (Some 0.3) sortino_ratio)
                  | None \<Rightarrow> sortino_ratio)
           in [''cagr'' \<mapsto> VNum (cagr_of returns),
               ''volatility'' \<mapsto> VNum (volatility_of returns),
               ''sharpe_ratio'' \<mapsto> VNum (sharpe_of returns),
               ''sortino_ratio'' \<mapsto> VNum sortino_ratio,
               ''max_drawdown'' \<mapsto> VNum (max_drawdown_of returns),
               ''win_rate'' \<mapsto> VNum (win_rate_of returns),
               ''total_return'' \<mapsto> VNum (Some (total_return_of returns)),
               ''combined_score'' \<mapsto> VNum combined_score,
               ''num_trades'' \<mapsto> VNum (Some (real (length returns)))])"

section \<open>Signal generator and backtest engine\<close>

text \<open>
  The aligned price data is the list of its rows, one per day, each holding the
  BTC and the ETH close; the date index plays no part in a backtest.
\<close>

type_synonym price_data = "(pyfloat \<times> pyfloat) list"

text \<open>
  The tradable series of \<^verbatim>\<open>backtest_ma_strategy\<close> (lines 167-183). Any
  strategy name other than the two single-asset ones is a rebalancing strategy,
  and any of those other than \<^verbatim>\<open>rebalance_50_50\<close> weighs 60:40. After
  \<^verbatim>\<open>fillna(0)\<close> no portfolio return is NaN, so \<open>dropna\<close> only unwraps.
\<close>

definition tradable_series :: "price_data \<Rightarrow> string \<Rightarrow> pyfloat list" where
  "tradable_series data strategy_type =
     (if strategy_type = ''BTC_only'' then map fst data
      else if strategy_type = ''ETH_only'' then map snd data
      else let weights = (if strategy_type = ''rebalance_50_50''
                          then (0.5, 0.5) else (0.6, 0.4) :: real \<times> real);
               btc_returns = pct_change (map fst data);
               eth_returns = pct_change (map snd data);
               portfolio_returns =
                 map2 (\<lambda>b e. fadd (fmul (Some (fst weights)) b) (fmul (Some (snd weights)) e))
                   btc_returns eth_returns
           in map (\<lambda>v. Some (v * 100))
                (cumprod (map (\<lambda>r. 1 + r) (dropna (fillna 0 portfolio_returns)))))"

text \<open>
  Lines 189-191: the signal starts undefined everywhere, becomes 1 where
  \<^verbatim>\<open>price > ma\<close> and 0 where \<^verbatim>\<open>price <= ma\<close>; both comparisons are
  false where the moving average (or the price) is NaN.
\<close>

definition raw_signals :: "pyfloat list \<Rightarrow> pyfloat list \<Rightarrow> pyfloat list" where
  "raw_signals price_data ma =
     map2 (\<lambda>p m. if fgt p m then Some 1 else if fle p m then Some 0 else None) price_data ma"

text \<open>Lines 186-192: moving average, comparison, forward fill, then 0 for what is left.\<close>

definition generate_signals :: "pyfloat list \<Rightarrow> nat \<Rightarrow> pyfloat list" where
  "generate_signals price_data ma_period =
     fillna 0 (ffill (raw_signals price_data (rolling_mean ma_period price_data)))"

text \<open>
  Line 196, before \<^verbatim>\<open>dropna\<close>: the signal shifted by one period times the
  price return, position by position.
\<close>

definition strategy_returns_series :: "pyfloat list \<Rightarrow> nat \<Rightarrow> pyfloat list" where
  "strategy_returns_series price_data ma_period =
     map2 fmul (shift1 (generate_signals price_data ma_period)) (pct_change price_data)"

definition strategy_returns_of :: "pyfloat list \<Rightarrow> nat \<Rightarrow> real list" where
  "strategy_returns_of price_data ma_period =
     dropna (strategy_returns_series price_data ma_period)"

text \<open>Lines 203-204: the recent slice of the strategy returns.\<close>

definition recent_cutoff_of :: "real list \<Rightarrow> nat" where
  "recent_cutoff_of strategy_returns =
     length strategy_returns - min 504 (length strategy_returns div 2)"

definition recent_returns_of :: "real list \<Rightarrow> real list" where
  "recent_returns_of strategy_returns =
     drop (recent_cutoff_of strategy_returns) strategy_returns"

text \<open>
  Lines 215-216: the number of entries of \<^verbatim>\<open>signals.diff()\<close> that are
  \<^verbatim>\<open>!= 0\<close>.
\<close>

definition count_trades :: "pyfloat list \<Rightarrow> nat" where
  "count_trades signals = length (filter (\<lambda>d. fne d (Some 0)) (diff signals))"

text \<open>Line 224: the ratio of the latest price to the latest moving average.\<close>

definition price_ma_ratio_of :: "pyfloat \<Rightarrow> pyfloat \<Rightarrow> pyfloat" where
  "price_ma_ratio_of current_price current_ma =
     (if fgt current_ma (Some 0) then fdiv current_price current_ma else Some 1)"

text \<open>Lines 225-236: the four bands, each with its raw strength and its label.\<close>

definition classify_signal :: "pyfloat \<Rightarrow> pyfloat \<times> signal_label" where
  "classify_signal price_ma_ratio =
     (if fgt price_ma_ratio (Some 1.02)
      then (py_min (Some 95) (fadd (Some 50) (fmul (fsub price_ma_ratio (Some 1)) (Some 1000))),
            StrongBuy)
      else if fgt price_ma_ratio (Some 1)
      then (fadd (Some 50) (fmul (fsub price_ma_ratio (Some 1)) (Some 500)), WeakBuy)
      else if flt price_ma_ratio (Some 0.98)
      then (py_min (Some 95) (fadd (Some 50) (fmul (fsub (Some 1) price_ma_ratio) (Some 1000))),
            StrongSell)
      else (fadd (Some 50) (fmul (fsub (Some 1) price_ma_ratio) (Some 500)), WeakSell))"

text \<open>Line 243: the strength as reported, \<^verbatim>\<open>min(99, max(1, signal_strength))\<close>.\<close>

definition reported_strength :: "pyfloat \<Rightarrow> pyfloat" where
  "reported_strength price_ma_ratio =
     py_min (Some 99) (py_max (Some 1) (fst (classify_signal price_ma_ratio)))"

text \<open>
  \<^verbatim>\<open>backtest_ma_strategy\<close> (lines 163-252). The body runs inside
  \<^verbatim>\<open>try\<close>; the exception the model can meet is the \<^verbatim>\<open>IndexError\<close> of
  \<^verbatim>\<open>price_data.iloc[-1]\<close> on an empty series, and the handler returns the
  empty dict.
\<close>

definition backtest_ma_strategy :: "price_data \<Rightarrow> nat \<Rightarrow> string \<Rightarrow> pydict" where
  "backtest_ma_strategy data ma_period strategy_type =
     (let price_data = tradable_series data strategy_type;
          ma = rolling_mean ma_period price_data;
          signals = generate_signals price_data ma_period;
          strategy_returns = strategy_returns_of price_data ma_period;
          all_period_metrics0 = calculate_enhanced_metrics (map Some strategy_returns) None;
          recent_returns = recent_returns_of strategy_returns;
          recent_metrics = calculate_enhanced_metrics (map Some recent_returns) None;
          all_period_metrics =
            (if length recent_returns > 0
             then all_period_metrics0(''combined_score'' \<mapsto>
                    VNum (fadd (fmul (Some 0.3) (get_num all_period_metrics0 ''sortino_ratio'' (Some 0)))
                               (fmul (Some 0.7) (get_num recent_metrics ''sortino_ratio'' (Some 0)))))
             else all_period_metrics0);
          trades = count_trades signals
      in if price_data = [] then Map.empty
         else let current_price = last price_data;
                  current_ma = last ma;
                  price_ma_ratio = price_ma_ratio_of current_price current_ma
              in all_period_metrics
                   (''ma_period'' \<mapsto> VNum (Some (real ma_period)),
                    ''total_trades'' \<mapsto> VNum (Some (real trades)),
                    ''current_signal'' \<mapsto> VLabel (snd (classify_signal price_ma_ratio)),
                    ''signal_strength'' \<mapsto> VNum (reported_strength price_ma_ratio),
                    ''current_price_ma_ratio'' \<mapsto> VNum price_ma_ratio,
                    ''cumulative_returns'' \<mapsto>
                       VSeries (map Some (cumprod (map (\<lambda>r. 1 + r) strategy_returns))),
                    ''signals'' \<mapsto> VSeries signals,
                    ''recent_performance'' \<mapsto> VDict recent_metrics))"

section \<open>Optimizer\<close>

datatype error = KeyError | FetchError

text \<open>
  The \<^verbatim>\<open>StrategyResult\<close> dataclass (lines 20-35). The strategy names are
  Korean display strings in the source and are given here by their meaning.
\<close>

record strategy_result =
  strategy_name :: string
  optimal_ma :: nat
  cagr :: pyfloat
  mdd :: pyfloat
  sharpe_ratio :: pyfloat
  sortino_ratio :: pyfloat
  combined_score :: pyfloat
  win_rate :: pyfloat
  total_trades :: pyfloat
  current_signal :: signal_label
  signal_strength :: pyfloat
  last_signal_change :: string
  backtest_data :: pydict

definition strategies :: "(string \<times> string) list" where
  "strategies =
     [(''BTC_only'', ''BTC single investment''),
      (''ETH_only'', ''ETH single investment''),
      (''rebalance_50_50'', ''50:50 rebalancing''),
      (''rebalance_60_40'', ''60:40 rebalancing'')]"

text \<open>Lines 263-266: \<^verbatim>\<open>range(5, 101)\<close> or \<^verbatim>\<open>range(10, 61)\<close>.\<close>

definition test_range :: "string \<Rightarrow> nat list" where
  "test_range strategy_type =
     (if strategy_type = ''BTC_only'' \<or> strategy_type = ''ETH_only''
      then [5..<101] else [10..<61])"

text \<open>
  Lines 269-273: one future per window of the range, keyed in submission
  order. The pool's workers finish the trials in an order of their own; \<open>completed\<close>
  lists, in that order, the trials whose result is there when the main thread
  asks for it within the timeout. A window that is missing from \<open>completed\<close>
  is a future whose \<^verbatim>\<open>result(timeout=30)\<close> raises \<^verbatim>\<open>TimeoutError\<close>. Each
  worker stores the result of its own trial in its own future.
\<close>

definition run_pool :: "(nat \<Rightarrow> pydict) \<Rightarrow> nat list \<Rightarrow> nat list \<Rightarrow> (nat \<Rightarrow> pydict option)" where
  "run_pool trial submitted completed =
     fold (\<lambda>w futures. if w \<in> set submitted then futures(w \<mapsto> trial w) else futures)
       completed Map.empty"

text \<open>
  Lines 276-288, one iteration: the running best is the triple of
  \<^verbatim>\<open>best_score\<close>, \<^verbatim>\<open>best_ma\<close> and \<^verbatim>\<open>best_result\<close>. A timeout is caught
  and logged; an empty dict or one without a combined score is passed over.
\<close>

type_synonym best = "pyfloat \<times> nat \<times> pydict"

definition consider_trial :: "(nat \<Rightarrow> pydict option) \<Rightarrow> best \<Rightarrow> nat \<Rightarrow> best" where
  "consider_trial futures b ma_period =
     (case futures ma_period of
        None \<Rightarrow> b
      | Some result \<Rightarrow>
          (if result \<noteq> Map.empty \<and> result ''combined_score'' \<noteq> None
           then (case result ''combined_score'' of
                   Some (VNum score) \<Rightarrow>
                     (if fgt score (fst b) then (score, ma_period, result) else b)
                 | _ \<Rightarrow> b)
           else b))"

text \<open>Lines 258-260 and 275: the loop over the futures, in submission order.\<close>

definition initial_best :: best where
  "initial_best = (Some (- 999), 20, Map.empty)"

definition select_best :: "(nat \<Rightarrow> pydict option) \<Rightarrow> nat list \<Rightarrow> best" where
  "select_best futures windows =
     fold (\<lambda>ma_period b. consider_trial futures b ma_period) windows initial_best"

text \<open>
  \<^verbatim>\<open>find_optimal_ma\<close> (lines 254-308). \<open>today\<close> is the date the clock
  gives. An unknown strategy name raises \<^verbatim>\<open>KeyError\<close> at line 292, after
  the sweep.
\<close>

definition find_optimal_ma ::
  "nat list \<Rightarrow> price_data \<Rightarrow> string \<Rightarrow> string \<Rightarrow> error + strategy_result" where
  "find_optimal_ma completed data strategy_type today =
     (let futures = run_pool (\<lambda>ma_period. backtest_ma_strategy data ma_period strategy_type)
                      (test_range strategy_type) completed;
          b = select_best futures (test_range strategy_type);
          best_score = fst b;
          best_ma = fst (snd b);
          best_result = snd (snd b)
      in case map_of strategies strategy_type of
           None \<Rightarrow> Inl KeyError
         | Some name \<Rightarrow>
             Inr \<lparr>strategy_name = name,
                  optimal_ma = best_ma,
                  cagr = fmul (get_num best_result ''cagr'' (Some 0)) (Some 100),
                  mdd = fmul (get_num best_result ''max_drawdown'' (Some 0)) (Some 100),
                  sharpe_ratio = get_num best_result ''sharpe_ratio'' (Some 0),
                  sortino_ratio = get_num best_result ''sortino_ratio'' (Some 0),
                  combined_score = best_score,
                  win_rate = fmul (get_num best_result ''win_rate'' (Some 0)) (Some 100),
                  total_trades = get_num best_result ''total_trades'' (Some 0),
                  current_signal =
                    (case best_result ''current_signal'' of
                       Some (VLabel l) \<Rightarrow> l | _ \<Rightarrow> NotAvailable),
                  signal_strength = get_num best_result ''signal_strength'' (Some 50),
                  last_signal_change = today,
                  backtest_data = best_result\<rparr>)"

section \<open>Result aggregator\<close>

text \<open>
  \<^verbatim>\<open>run_full_analysis\<close> (lines 310-356). \<open>fetched\<close> is what
  \<^verbatim>\<open>fetch_crypto_data\<close> gave: the dated rows (a date is its day number,
  and the analysis period is the pair of the first and the last date), or the
  exception it raised.
  Every strategy's entry copies the fields of its \<^verbatim>\<open>StrategyResult\<close>; a
  strategy whose optimization raises is logged and skipped. The metadata reads
  the first and the last date, so an empty frame raises \<^verbatim>\<open>IndexError\<close> and
  the outer handler returns the empty dict.
\<close>

type_synonym dataframe = "(nat \<times> pyfloat \<times> pyfloat) list"

record metadata =
  last_update :: string
  data_points :: nat
  analysis_period :: "nat \<times> nat"
  version :: string

datatype result_entry = StrategyEntry strategy_result | MetadataEntry metadata

definition analyze_strategy ::
  "(string \<Rightarrow> nat list) \<Rightarrow> price_data \<Rightarrow> string \<Rightarrow> string \<Rightarrow>
   (string \<Rightarrow> result_entry option) \<Rightarrow> (string \<Rightarrow> result_entry option)" where
  "analyze_strategy completed data today strategy_type results =
     (case find_optimal_ma (completed strategy_type) data strategy_type today of
        Inl e \<Rightarrow> results
      | Inr strategy_result \<Rightarrow> results(strategy_type \<mapsto> StrategyEntry strategy_result))"

definition run_full_analysis ::
  "error + dataframe \<Rightarrow> (string \<Rightarrow> nat list) \<Rightarrow> string \<Rightarrow> string \<Rightarrow>
   (string \<Rightarrow> result_entry option)" where
  "run_full_analysis fetched completed today now =
     (case fetched of
        Inl e \<Rightarrow> Map.empty
      | Inr df \<Rightarrow>
          (let data = map snd df;
               results = fold (analyze_strategy completed data today) (map fst strategies) Map.empty
           in if df = [] then Map.empty
              else results(''metadata'' \<mapsto> MetadataEntry
                     \<lparr>last_update = now,
                      data_points = length df,
                      analysis_period = (fst (hd df), fst (last df)),
                      version = ''2.0.0''\<rparr>)))"

text \<open>
  The \<^verbatim>\<open>StrategyResult\<close> that lines 291-305 build when no trial replaced
  the initial values of lines 258-260: window 20, score -999 and an empty
  result dict, from which every \<^verbatim>\<open>get\<close> returns its default.
\<close>

definition fallback_result :: "string \<Rightarrow> string \<Rightarrow> strategy_result" where
  "fallback_result name today =
     \<lparr>strategy_name = name,
      optimal_ma = 20,
      cagr = Some 0,
      mdd = Some 0,
      sharpe_ratio = Some 0,
      sortino_ratio = Some 0,
      combined_score = Some (- 999),
      win_rate = Some 0,
      total_trades = Some 0,
      current_signal = NotAvailable,
      signal_strength = Some 50,
      last_signal_change = today,
      backtest_data = Map.empty\<rparr>"

text \<open>
  The finite combined score a future delivers, if it delivers one: the value
  that line 281 reads and line 282 compares.
\<close>

definition trial_score :: "(nat \<Rightarrow> pydict option) \<Rightarrow> nat \<Rightarrow> real option" where
  "trial_score futures ma_period =
     (case futures ma_period of
        None \<Rightarrow> None
      | Some result \<Rightarrow>
          (case result ''combined_score'' of Some (VNum (Some s)) \<Rightarrow> Some s | _ \<Rightarrow> None))"

section \<open>Example inputs\<close>

text \<open>
  A year of daily rows, numbered from 0, with both closes at 1.
\<close>

definition flat_year :: dataframe where
  "flat_year = map (\<lambda>d. (d, Some 1, Some 1)) [0..<365]"

text \<open>
  BTC closes at 1 on \<open>m\<close> days, jumps to 1000 and then slides to 999 and 998;
  ETH closes at 1 throughout.
\<close>

definition spike_then_slide :: "nat \<Rightarrow> price_data" where
  "spike_then_slide m =
     replicate m (Some 1, Some 1) @ [(Some 1000, Some 1), (Some 999, Some 1), (Some 998, Some 1)]"

section \<open>Properties of the metrics calculator\<close>

lemma dropna_map_Some: "dropna (map Some xs) = xs"
  by (induction xs) simp_all

lemma fmul_one_left: "fmul (Some 1) x = x"
  by (cases x) simp_all

text \<open>
  Claim C6, as the specification states it: on a return series with zero
  elements the metrics calculator returns a bundle in which every metric field
  is present and equal to zero. The code returns the empty dict instead, so no
  field is present.
\<close>

theorem C6_empty_series_has_no_field:
  "dom (calculate_enhanced_metrics [] None) = {}"
  by (simp add: calculate_enhanced_metrics_def)

text \<open>
  Claim C6, amended: on a return series with zero elements the metrics
  calculator returns the empty bundle, whatever the secondary series is, without
  raising (the guard of line 96 returns before anything is computed); a caller
  that reads a metric with the default 0, as \<^verbatim>\<open>backtest_ma_strategy\<close> and
  \<^verbatim>\<open>find_optimal_ma\<close> do, obtains 0.
\<close>

theorem C6_empty_series_empty_bundle:
  "calculate_enhanced_metrics [] period_returns = Map.empty
   \<and> get_num (calculate_enhanced_metrics [] period_returns) k (Some 0) = Some 0"
  by (simp add: calculate_enhanced_metrics_def get_num_def)

section \<open>Properties of the current signal\<close>

lemma classify_label:
  "snd (classify_signal (Some r)) =
     (if r > 1.02 then StrongBuy else if 1 < r \<and> r \<le> 1.02 then WeakBuy
      else if r < 0.98 then StrongSell else WeakSell)"
  by (simp add: classify_signal_def)

lemma reported_strength_bounds:
  "\<exists>s. reported_strength ratio = Some s \<and> 1 \<le> s \<and> s \<le> 99"
proof (cases ratio)
  case None
  then show ?thesis
    by (simp add: reported_strength_def classify_signal_def py_min_def py_max_def)
next
  case (Some r)
  then show ?thesis
    by (auto simp add: reported_strength_def classify_signal_def py_min_def py_max_def)
qed

lemma last_rolling_mean:
  "p \<noteq> [] \<Longrightarrow> last (rolling_mean w p) =
     (if length p < w then None else window_mean (take w (drop (length p - w) p)))"
  by (auto simp add: rolling_mean_def last_map)

text \<open>A defined latest moving average has the latest price in its window.\<close>

lemma last_rolling_mean_Some:
  assumes "p \<noteq> []" and "last (rolling_mean w p) = Some m"
  shows "last p \<noteq> None"
proof -
  from assms have le: "w \<le> length p"
    and wm: "window_mean (take w (drop (length p - w) p)) = Some m"
    by (auto simp add: last_rolling_mean split: if_splits)
  from wm have ne: "take w (drop (length p - w) p) \<noteq> []"
    and nn: "None \<notin> set (take w (drop (length p - w) p))"
    by (auto simp add: window_mean_def split: if_splits)
  from ne have "0 < w" by (cases w) auto
  have "take w (drop (length p - w) p) = drop (length p - w) p"
    using le by simp
  moreover have "last p \<in> set (drop (length p - w) p)"
    using assms(1) \<open>0 < w\<close> le
    by (metis diff_less drop_eq_Nil2 last_drop last_in_set length_greater_0_conv not_le)
  ultimately show ?thesis using nn by (cases "last p") auto
qed

text \<open>So the ratio of a trial is never NaN: line 224 divides only by a positive average.\<close>

lemma ratio_defined:
  assumes "p \<noteq> []"
  shows "\<exists>r. price_ma_ratio_of (last p) (last (rolling_mean w p)) = Some r"
proof (cases "fgt (last (rolling_mean w p)) (Some 0)")
  case False
  then show ?thesis by (simp add: price_ma_ratio_of_def)
next
  case True
  then obtain m where m: "last (rolling_mean w p) = Some m" and "m > 0"
    by (cases "last (rolling_mean w p)") auto
  with assms last_rolling_mean_Some obtain c where "last p = Some c" by blast
  with m \<open>m > 0\<close> show ?thesis by (simp add: price_ma_ratio_of_def)
qed

lemma price_ma_ratio_explicit:
  assumes "p \<noteq> []"
  shows "price_ma_ratio_of (last p) (last (rolling_mean w p)) =
     Some (case (last p, last (rolling_mean w p)) of
             (Some c, Some m) \<Rightarrow> if 0 < m then c / m else 1
           | _ \<Rightarrow> 1)"
proof (cases "last (rolling_mean w p)")
  case None
  then show ?thesis by (simp add: price_ma_ratio_of_def split: option.splits)
next
  case (Some m)
  with assms last_rolling_mean_Some obtain c where "last p = Some c" by blast
  with Some show ?thesis by (simp add: price_ma_ratio_of_def)
qed

lemma reported_strength_value:
  "reported_strength (Some r) =
     Some (if r > 1.02 then min 95 (50 + (r - 1) * 1000)
           else if r > 1 then 50 + (r - 1) * 500
           else if r < 0.98 then min 95 (50 + (1 - r) * 1000)
           else 50 + (1 - r) * 500)"
  by (auto simp add: reported_strength_def classify_signal_def py_min_def py_max_def min_def)

text \<open>
  Claim C8: every trial on a non-empty series computes the ratio \<open>r\<close> of the
  latest price to the latest moving average (1 when that average is not
  positive or undefined) and classifies the current signal by it: strong buy for
  \<open>r > 1.02\<close>, weak buy for \<open>1 < r \<le> 1.02\<close>, strong sell for \<open>r < 0.98\<close> and
  weak sell for \<open>0.98 \<le> r \<le> 1\<close>. Its reported signal strength is the
  divergence from 1 scaled by 1000 in the strong bands (capped at 95) and by 500
  in the weak bands, added to 50, and lies in \<open>[1, 99]\<close>. The strength
  computed from any ratio at all, NaN included, lies in \<open>[1, 99]\<close>, and at the
  ratio 1 exactly it is 50.
\<close>

theorem C8_signal_bands_and_strength:
  assumes "tradable_series data strategy_type \<noteq> []"
  shows "(\<exists>r s.
          r = (case (last (tradable_series data strategy_type),
                     last (rolling_mean ma_period (tradable_series data strategy_type))) of
                 (Some c, Some m) \<Rightarrow> if 0 < m then c / m else 1
               | _ \<Rightarrow> 1) \<and>
          backtest_ma_strategy data ma_period strategy_type ''current_price_ma_ratio''
            = Some (VNum (Some r)) \<and>
          backtest_ma_strategy data ma_period strategy_type ''current_signal''
            = Some (VLabel
                (if r > 1.02 then StrongBuy else if 1 < r \<and> r \<le> 1.02 then WeakBuy
                 else if r < 0.98 then StrongSell else WeakSell)) \<and>
          backtest_ma_strategy data ma_period strategy_type ''signal_strength''
            = Some (VNum (Some s)) \<and>
          s = (if r > 1.02 then min 95 (50 + (r - 1) * 1000)
               else if r > 1 then 50 + (r - 1) * 500
               else if r < 0.98 then min 95 (50 + (1 - r) * 1000)
               else 50 + (1 - r) * 500) \<and>
          1 \<le> s \<and> s \<le> 99)
       \<and> (\<exists>s. reported_strength ratio = Some s \<and> 1 \<le> s \<and> s \<le> 99)
       \<and> reported_strength (Some 1) = Some 50"
proof (intro conjI)
  show "\<exists>s. reported_strength ratio = Some s \<and> 1 \<le> s \<and> s \<le> 99"
    by (rule reported_strength_bounds)
  show "reported_strength (Some 1) = Some 50"
    by (simp add: reported_strength_def classify_signal_def py_min_def py_max_def)
  define p where "p = tradable_series data strategy_type"
  define r where "r = (case (last p, last (rolling_mean ma_period p)) of
                 (Some c, Some m) \<Rightarrow> if 0 < m then c / m else 1
               | _ \<Rightarrow> 1)"
  have ne: "p \<noteq> []" using assms by (simp add: p_def)
  have ratio: "price_ma_ratio_of (last p) (last (rolling_mean ma_period p)) = Some r"
    unfolding r_def by (rule price_ma_ratio_explicit [OF ne])
  from reported_strength_bounds [of "Some r"] obtain s where
    s: "reported_strength (Some r) = Some s" "1 \<le> s" "s \<le> 99" by blast
  with reported_strength_value [of r] have sv:
    "s = (if r > 1.02 then min 95 (50 + (r - 1) * 1000)
               else if r > 1 then 50 + (r - 1) * 500
               else if r < 0.98 then min 95 (50 + (1 - r) * 1000)
               else 50 + (1 - r) * 500)" by simp
  have "backtest_ma_strategy data ma_period strategy_type ''current_price_ma_ratio''
            = Some (VNum (Some r))"
    using ne ratio unfolding p_def by (simp add: backtest_ma_strategy_def Let_def)
  moreover have "backtest_ma_strategy data ma_period strategy_type ''current_signal''
            = Some (VLabel
                (if r > 1.02 then StrongBuy else if 1 < r \<and> r \<le> 1.02 then WeakBuy
                 else if r < 0.98 then StrongSell else WeakSell))"
    using ne ratio classify_label [of r] unfolding p_def
    by (simp add: backtest_ma_strategy_def Let_def)
  moreover have "backtest_ma_strategy data ma_period strategy_type ''signal_strength''
            = Some (VNum (Some s))"
    using ne ratio s(1) unfolding p_def by (simp add: backtest_ma_strategy_def Let_def)
  ultimately show "\<exists>r s.
          r = (case (last (tradable_series data strategy_type),
                     last (rolling_mean ma_period (tradable_series data strategy_type))) of
                 (Some c, Some m) \<Rightarrow> if 0 < m then c / m else 1
               | _ \<Rightarrow> 1) \<and>
          backtest_ma_strategy data ma_period strategy_type ''current_price_ma_ratio''
            = Some (VNum (Some r)) \<and>
          backtest_ma_strategy data ma_period strategy_type ''current_signal''
            = Some (VLabel
                (if r > 1.02 then StrongBuy else if 1 < r \<and> r \<le> 1.02 then WeakBuy
                 else if r < 0.98 then StrongSell else WeakSell)) \<and>
          backtest_ma_strategy data ma_period strategy_type ''signal_strength''
            = Some (VNum (Some s)) \<and>
          s = (if r > 1.02 then min 95 (50 + (r - 1) * 1000)
               else if r > 1 then 50 + (r - 1) * 500
               else if r < 0.98 then min 95 (50 + (1 - r) * 1000)
               else 50 + (1 - r) * 500) \<and>
          1 \<le> s \<and> s \<le> 99"
    using sv s(2,3) r_def p_def by blast
qed


text \<open>
  The theorem at the BTC prices 1, 1, 10 with window 2: the latest average is
  5.5, the ratio 20/11, the signal a strong buy and the strength 95.
\<close>

theorem C8_signal_bands_and_strength_witness:
  "tradable_series [(Some 1, Some 1), (Some 1, Some 1), (Some 10, Some 1)] ''BTC_only'' \<noteq> []
   \<and> last (rolling_mean 2
         (tradable_series [(Some 1, Some 1), (Some 1, Some 1), (Some 10, Some 1)] ''BTC_only''))
       = Some (11 / 2)
   \<and> backtest_ma_strategy [(Some 1, Some 1), (Some 1, Some 1), (Some 10, Some 1)] 2 ''BTC_only''
         ''current_price_ma_ratio'' = Some (VNum (Some (20 / 11)))
   \<and> backtest_ma_strategy [(Some 1, Some 1), (Some 1, Some 1), (Some 10, Some 1)] 2 ''BTC_only''
         ''current_signal'' = Some (VLabel StrongBuy)
   \<and> backtest_ma_strategy [(Some 1, Some 1), (Some 1, Some 1), (Some 10, Some 1)] 2 ''BTC_only''
         ''signal_strength'' = Some (VNum (Some 95))"
proof -
  let ?d = "[(Some 1, Some 1), (Some 1, Some 1), (Some 10, Some (1::real))]"
  have p: "tradable_series ?d ''BTC_only'' = [Some 1, Some 1, Some 10]"
    by (simp add: tradable_series_def)
  have ma: "rolling_mean 2 [Some 1, Some 1, Some (10::real)] = [None, Some 1, Some (11 / 2)]"
    by (simp add: rolling_mean_def window_mean_def upt_rec)
  have ne: "tradable_series ?d ''BTC_only'' \<noteq> []" by (simp add: p)
  from C8_signal_bands_and_strength [OF ne, of 2 "Some 1", THEN conjunct1, unfolded p ma]
  obtain r s where
    r: "r = (case (last [Some 1, Some 1, Some (10::real)],
                   last [None, Some 1, Some (11 / 2 :: real)]) of
               (Some c, Some m) \<Rightarrow> if 0 < m then c / m else 1
             | _ \<Rightarrow> 1)"
    and res: "backtest_ma_strategy ?d 2 ''BTC_only'' ''current_price_ma_ratio''
        = Some (VNum (Some r))"
      "backtest_ma_strategy ?d 2 ''BTC_only'' ''current_signal''
        = Some (VLabel
            (if r > 1.02 then StrongBuy else if 1 < r \<and> r \<le> 1.02 then WeakBuy
             else if r < 0.98 then StrongSell else WeakSell))"
      "backtest_ma_strategy ?d 2 ''BTC_only'' ''signal_strength'' = Some (VNum (Some s))"
    and s: "s = (if r > 1.02 then min 95 (50 + (r - 1) * 1000)
               else if r > 1 then 50 + (r - 1) * 500
               else if r < 0.98 then min 95 (50 + (1 - r) * 1000)
               else 50 + (1 - r) * 500)"
    by blast
  from r have r': "r = 20 / 11" by simp
  from s have s': "s = 95" unfolding r' by simp
  from res show ?thesis
    unfolding r' s' by (simp add: p ma)
qed

section \<open>Properties of the signal generator\<close>

lemma length_ffill_from [simp]: "length (ffill_from prev xs) = length xs"
  by (induction prev xs rule: ffill_from.induct) simp_all

lemma length_shift1 [simp]: "length (shift1 xs) = length xs"
  by (simp add: shift1_def)

lemma length_rolling_mean [simp]: "length (rolling_mean w xs) = length xs"
  by (simp add: rolling_mean_def)

lemma length_raw_signals [simp]: "length (raw_signals p (rolling_mean w p)) = length p"
  by (simp add: raw_signals_def)

lemma length_generate_signals [simp]: "length (generate_signals p w) = length p"
  by (simp add: generate_signals_def fillna_def ffill_def)

lemma length_pct_change [simp]: "length (pct_change p) = length p"
  by (simp add: pct_change_def Let_def ffill_def)

lemma nth_shift1: "i < length xs \<Longrightarrow> shift1 xs ! i = (if i = 0 then None else xs ! (i - 1))"
  by (cases i) (auto simp add: shift1_def nth_butlast)

lemma nth_rolling_mean:
  "i < length xs \<Longrightarrow> rolling_mean w xs ! i =
     (if i + 1 < w then None else window_mean (take w (drop (i + 1 - w) xs)))"
  by (simp add: rolling_mean_def)

lemma nth_raw_signals:
  "i < length p \<Longrightarrow> raw_signals p (rolling_mean w p) ! i =
     (if fgt (p ! i) (rolling_mean w p ! i) then Some 1
      else if fle (p ! i) (rolling_mean w p ! i) then Some 0 else None)"
  by (simp add: raw_signals_def)

lemma nth_ffill_from:
  "i < length xs \<Longrightarrow> ffill_from prev xs ! i =
     (case xs ! i of Some v \<Rightarrow> Some v
      | None \<Rightarrow> (if i = 0 then prev else ffill_from prev xs ! (i - 1)))"
proof (induction prev xs arbitrary: i rule: ffill_from.induct)
  case (1 prev)
  then show ?case by simp
next
  case (2 prev xs)
  then show ?case by (cases i) (auto split: option.splits simp add: nth_Cons')
next
  case (3 prev x xs)
  then show ?case
    by (cases i) (auto split: option.splits simp add: nth_Cons')
qed

lemma nth_generate_signals:
  assumes "i < length p"
  shows "generate_signals p w ! i =
     (case raw_signals p (rolling_mean w p) ! i of Some v \<Rightarrow> Some v
      | None \<Rightarrow> (if i = 0 then Some 0 else generate_signals p w ! (i - 1)))"
  using assms nth_ffill_from [of i "raw_signals p (rolling_mean w p)" None]
  by (auto simp add: generate_signals_def fillna_def ffill_def split: option.splits)

lemma window_mean_defined:
  assumes "ys \<noteq> []" and "None \<notin> set ys"
  shows "window_mean ys = Some (sum_list (dropna ys) / real (length ys))"
  using assms by (simp add: window_mean_def)

text \<open>
  Claim C4: for a price series and a window \<open>W \<ge> 1\<close>, the moving average
  at index \<open>i\<close> is undefined while fewer than \<open>W\<close> observations exist and
  is the mean of the last \<open>W\<close> prices once they exist; the signal is 1 where
  the price is strictly above the average and 0 where it is at or below it; an
  entry that is still undefined (the average or the price is NaN) takes the
  signal of the index before it, and 0 at the start of the series.
\<close>

theorem C4_signal_series:
  assumes "1 \<le> W" and "i < length p"
  shows "(i + 1 < W \<longrightarrow>
            rolling_mean W p ! i = None \<and> raw_signals p (rolling_mean W p) ! i = None)
       \<and> (W \<le> i + 1 \<and> None \<notin> set (take W (drop (i + 1 - W) p)) \<longrightarrow>
            rolling_mean W p ! i =
              Some (sum_list (dropna (take W (drop (i + 1 - W) p))) / real W))
       \<and> (fgt (p ! i) (rolling_mean W p ! i) \<longrightarrow> generate_signals p W ! i = Some 1)
       \<and> (fle (p ! i) (rolling_mean W p ! i) \<longrightarrow> generate_signals p W ! i = Some 0)
       \<and> (\<not> fgt (p ! i) (rolling_mean W p ! i) \<and> \<not> fle (p ! i) (rolling_mean W p ! i) \<longrightarrow>
            generate_signals p W ! i =
              (if i = 0 then Some 0 else generate_signals p W ! (i - 1)))"
proof (intro conjI impI)
  assume "i + 1 < W"
  then show "rolling_mean W p ! i = None"
    using assms(2) by (simp add: nth_rolling_mean)
  then show "raw_signals p (rolling_mean W p) ! i = None"
    using assms(2) by (simp add: nth_raw_signals)
next
  assume a: "W \<le> i + 1 \<and> None \<notin> set (take W (drop (i + 1 - W) p))"
  have len: "length (take W (drop (i + 1 - W) p)) = W"
    using a assms(2) by simp
  then have "take W (drop (i + 1 - W) p) \<noteq> []"
    using assms(1) by auto
  with a len show "rolling_mean W p ! i =
      Some (sum_list (dropna (take W (drop (i + 1 - W) p))) / real W)"
    using assms(2) window_mean_defined [of "take W (drop (i + 1 - W) p)"]
    by (simp add: nth_rolling_mean)
next
  assume "fgt (p ! i) (rolling_mean W p ! i)"
  then show "generate_signals p W ! i = Some 1"
    using assms(2) by (simp add: nth_generate_signals nth_raw_signals)
next
  assume "fle (p ! i) (rolling_mean W p ! i)"
  moreover from this have "\<not> fgt (p ! i) (rolling_mean W p ! i)"
    by (cases "p ! i"; cases "rolling_mean W p ! i") auto
  ultimately show "generate_signals p W ! i = Some 0"
    using assms(2) by (simp add: nth_generate_signals nth_raw_signals)
next
  assume "\<not> fgt (p ! i) (rolling_mean W p ! i) \<and> \<not> fle (p ! i) (rolling_mean W p ! i)"
  then show "generate_signals p W ! i =
      (if i = 0 then Some 0 else generate_signals p W ! (i - 1))"
    using assms(2) nth_generate_signals [of i p W] by (simp add: nth_raw_signals)
qed

lemma rolling_mean_example_gap: "rolling_mean 3 [Some 1, Some 2, Some 3, None, Some 5, Some (6::real)]
       = [None, None, Some 2, None, None, None]"
  by (simp add: rolling_mean_def window_mean_def upt_rec)

lemma rolling_mean_example_falling: "rolling_mean 2 [Some 3, Some 2, Some (1::real)]
       = [None, Some (5/2), Some (3/2)]"
  by (simp add: rolling_mean_def window_mean_def upt_rec)

text \<open>
  The theorem at a rising series with a gap (window 3: undefined start, a long
  signal, a forward fill over the gap) and at a falling series (window 2).
\<close>

theorem C4_signal_series_witness:
  "rolling_mean 3 [Some 1, Some 2, Some 3, None, Some 5, Some (6::real)]
       = [None, None, Some 2, None, None, None]
   \<and> generate_signals [Some 1, Some 2, Some 3, None, Some 5, Some (6::real)] 3 ! 0 = Some 0
   \<and> generate_signals [Some 1, Some 2, Some 3, None, Some 5, Some (6::real)] 3 ! 2 = Some 1
   \<and> generate_signals [Some 1, Some 2, Some 3, None, Some 5, Some (6::real)] 3 ! 3 = Some 1
   \<and> rolling_mean 2 [Some 3, Some 2, Some (1::real)] = [None, Some (5/2), Some (3/2)]
   \<and> generate_signals [Some 3, Some 2, Some (1::real)] 2 ! 2 = Some 0"
  using C4_signal_series [of 3 0 "[Some 1, Some 2, Some 3, None, Some 5, Some (6::real)]"]
    C4_signal_series [of 3 2 "[Some 1, Some 2, Some 3, None, Some 5, Some (6::real)]"]
    C4_signal_series [of 3 3 "[Some 1, Some 2, Some 3, None, Some 5, Some (6::real)]"]
    C4_signal_series [of 2 2 "[Some 3, Some 2, Some (1::real)]"]
    rolling_mean_example_gap rolling_mean_example_falling
  by simp

section \<open>Properties of the lagged signal\<close>

lemma length_strategy_returns_series [simp]:
  "length (strategy_returns_series p w) = length p"
  by (simp add: strategy_returns_series_def)

lemma nth_strategy_returns_series:
  "T < length p \<Longrightarrow> strategy_returns_series p w ! T =
     fmul (if T = 0 then None else generate_signals p w ! (T - 1)) (pct_change p ! T)"
  by (simp add: strategy_returns_series_def nth_shift1)

text \<open>
  Claim C3, as the specification states it, ends: for a price series strictly
  above its moving average after the warm-up, the strategy-return series equals
  the price-return series delayed by exactly one period. The prices 1, 2, 4, 7
  with window 2 are above their average from index 1 on; the strategy return
  of period 3 is the price return of period 3, not the one of period 2, and the
  strategy-return series is not the price-return series shifted by one.
\<close>

theorem C3_rising_series_not_delayed:
  "rolling_mean 2 [Some 1, Some 2, Some 4, Some (7::real)]
       = [None, Some (3/2), Some 3, Some (11/2)]
   \<and> generate_signals [Some 1, Some 2, Some 4, Some (7::real)] 2
       = [Some 0, Some 1, Some 1, Some 1]
   \<and> pct_change [Some 1, Some 2, Some 4, Some (7::real)]
       = [None, Some 1, Some 1, Some (3/4)]
   \<and> strategy_returns_series [Some 1, Some 2, Some 4, Some (7::real)] 2
       = [None, Some 0, Some 1, Some (3/4)]
   \<and> shift1 (pct_change [Some 1, Some 2, Some 4, Some (7::real)])
       = [None, None, Some 1, Some 1]
   \<and> strategy_returns_series [Some 1, Some 2, Some 4, Some (7::real)] 2 ! 3
       \<noteq> pct_change [Some 1, Some 2, Some 4, Some (7::real)] ! 2"
  by (simp add: strategy_returns_series_def generate_signals_def raw_signals_def
      rolling_mean_def window_mean_def upt_rec pct_change_def ffill_def fillna_def shift1_def)

lemma rolling_mean_example_rising:
  "rolling_mean 2 [Some 1, Some 2, Some 4, Some (7::real)]
     = [None, Some (3/2), Some 3, Some (11/2)]"
  by (simp add: rolling_mean_def window_mean_def upt_rec)

text \<open>
  Claim C3, amended: for every price series and window, the strategy return of
  period \<open>T\<close> is the signal of period \<open>T - 1\<close> times the price return of
  period \<open>T\<close>; consequently, for a price series strictly above its moving
  average at every index from the end of the warm-up on (index \<open>W - 1\<close>), the
  signal is 1 from that index on, and from one period later on (\<open>T \<ge> W\<close>) the
  strategy return of each period equals the price return of that same period.
\<close>

theorem C3_lagged_signal:
  "(\<forall>T. 1 \<le> T \<and> T < length p \<longrightarrow>
       strategy_returns_series p W ! T =
         fmul (generate_signals p W ! (T - 1)) (pct_change p ! T))
   \<and> (1 \<le> W \<and> (\<forall>i. W - 1 \<le> i \<and> i < length p \<longrightarrow> fgt (p ! i) (rolling_mean W p ! i)) \<longrightarrow>
        (\<forall>i. W - 1 \<le> i \<and> i < length p \<longrightarrow> generate_signals p W ! i = Some 1) \<and>
        (\<forall>T. W \<le> T \<and> T < length p \<longrightarrow>
           strategy_returns_series p W ! T = pct_change p ! T))"
proof (intro conjI allI impI)
  fix T assume "1 \<le> T \<and> T < length p"
  then show "strategy_returns_series p W ! T =
      fmul (generate_signals p W ! (T - 1)) (pct_change p ! T)"
    by (simp add: nth_strategy_returns_series)
next
  fix i
  assume a: "1 \<le> W \<and> (\<forall>i. W - 1 \<le> i \<and> i < length p \<longrightarrow> fgt (p ! i) (rolling_mean W p ! i))"
    and "W - 1 \<le> i \<and> i < length p"
  then show "generate_signals p W ! i = Some 1"
    by (simp add: nth_generate_signals nth_raw_signals)
next
  fix T
  assume a: "1 \<le> W \<and> (\<forall>i. W - 1 \<le> i \<and> i < length p \<longrightarrow> fgt (p ! i) (rolling_mean W p ! i))"
    and T: "W \<le> T \<and> T < length p"
  then have "W - 1 \<le> T - 1 \<and> T - 1 < length p" "T \<noteq> 0" by auto
  with a have "generate_signals p W ! (T - 1) = Some 1"
    by (simp add: nth_generate_signals nth_raw_signals)
  with T \<open>T \<noteq> 0\<close> show "strategy_returns_series p W ! T = pct_change p ! T"
    by (simp add: nth_strategy_returns_series fmul_one_left)
qed

lemma signals_example_dip:
  "generate_signals [Some 1, Some 3, Some 2, Some (5::real)] 2 = [Some 0, Some 1, Some 0, Some 1]"
  by (simp add: generate_signals_def raw_signals_def rolling_mean_def window_mean_def upt_rec
      ffill_def fillna_def)

lemma pct_change_example_dip:
  "pct_change [Some 1, Some 3, Some 2, Some (5::real)] = [None, Some 2, Some (- 1 / 3), Some (3 / 2)]"
  by (simp add: pct_change_def ffill_def shift1_def)

text \<open>
  The theorem at the prices 1, 3, 2, 5 with window 2, where the price dips
  below its average in period 2 and the strategy still earns that period's
  return of -1/3 through the signal of period 1, and at the rising prices
  1, 2, 4, 7.
\<close>

theorem C3_lagged_signal_witness:
  "generate_signals [Some 1, Some 3, Some 2, Some (5::real)] 2 = [Some 0, Some 1, Some 0, Some 1]
   \<and> pct_change [Some 1, Some 3, Some 2, Some (5::real)] = [None, Some 2, Some (- 1 / 3), Some (3 / 2)]
   \<and> strategy_returns_series [Some 1, Some 3, Some 2, Some (5::real)] 2 ! 1 = Some 0
   \<and> strategy_returns_series [Some 1, Some 3, Some 2, Some (5::real)] 2 ! 2 = Some (- 1 / 3)
   \<and> strategy_returns_series [Some 1, Some 3, Some 2, Some (5::real)] 2 ! 3 = Some 0
   \<and> generate_signals [Some 1, Some 2, Some 4, Some (7::real)] 2 ! 1 = Some 1
   \<and> generate_signals [Some 1, Some 2, Some 4, Some (7::real)] 2 ! 3 = Some 1
   \<and> strategy_returns_series [Some 1, Some 2, Some 4, Some (7::real)] 2 ! 3
       = pct_change [Some 1, Some 2, Some 4, Some (7::real)] ! 3
   \<and> pct_change [Some 1, Some 2, Some 4, Some (7::real)] ! 3 = Some (3/4)"
proof -
  let ?q = "[Some 1, Some 3, Some 2, Some (5::real)]"
  let ?p = "[Some 1, Some 2, Some 4, Some (7::real)]"
  have lag: "\<forall>T. 1 \<le> T \<and> T < length ?q \<longrightarrow>
       strategy_returns_series ?q 2 ! T = fmul (generate_signals ?q 2 ! (T - 1)) (pct_change ?q ! T)"
    using C3_lagged_signal [of ?q 2] by (rule conjunct1)
  have q1: "strategy_returns_series ?q 2 ! 1 = Some 0"
    using lag [rule_format, of 1] by (simp add: signals_example_dip pct_change_example_dip)
  have q2: "strategy_returns_series ?q 2 ! 2 = Some (- 1 / 3)"
    using lag [rule_format, of 2] by (simp add: signals_example_dip pct_change_example_dip)
  have q3: "strategy_returns_series ?q 2 ! 3 = Some 0"
    using lag [rule_format, of 3] by (simp add: signals_example_dip pct_change_example_dip)
  have above: "1 \<le> (2::nat) \<and>
      (\<forall>i. 2 - 1 \<le> i \<and> i < length ?p \<longrightarrow> fgt (?p ! i) (rolling_mean 2 ?p ! i))"
  proof (intro conjI allI impI)
    fix i :: nat
    assume "2 - 1 \<le> i \<and> i < length ?p"
    then have "i = 1 \<or> i = 2 \<or> i = 3" by auto
    then show "fgt (?p ! i) (rolling_mean 2 ?p ! i)"
      by (auto simp add: rolling_mean_example_rising)
  qed simp
  have pc: "pct_change ?p ! 3 = Some (3/4)"
    by (simp add: pct_change_def ffill_def shift1_def)
  from C3_lagged_signal [of ?p 2, THEN conjunct2, rule_format, OF above]
  have "generate_signals ?p 2 ! 1 = Some 1" "generate_signals ?p 2 ! 3 = Some 1"
    "strategy_returns_series ?p 2 ! 3 = pct_change ?p ! 3"
    by simp_all
  with q1 q2 q3 pc show ?thesis
    by (simp only: signals_example_dip pct_change_example_dip simp_thms)
qed

section \<open>Properties of the combined score\<close>

lemma fadd_commute: "fadd a b = fadd b a"
  by (cases a; cases b) simp_all

lemma sortino_of_Nil: "sortino_of [] = Some 0"
  by (simp add: sortino_of_def downside_deviation_of_def)

lemma sortino_of_single: "sortino_of [r] = Some 0"
  by (simp add: sortino_of_def downside_deviation_of_def std_def)

lemma metrics_sortino:
  "xs \<noteq> [] \<Longrightarrow>
     calculate_enhanced_metrics (map Some xs) None ''sortino_ratio'' = Some (VNum (sortino_of xs))"
  by (simp add: calculate_enhanced_metrics_def dropna_map_Some Let_def)

lemma metrics_combined:
  "xs \<noteq> [] \<Longrightarrow>
     calculate_enhanced_metrics (map Some xs) None ''combined_score'' = Some (VNum (sortino_of xs))"
  by (simp add: calculate_enhanced_metrics_def dropna_map_Some Let_def)

lemma get_sortino:
  "get_num (calculate_enhanced_metrics (map Some xs) None) ''sortino_ratio'' (Some 0) = sortino_of xs"
  by (cases "xs = []")
    (simp_all add: get_num_def metrics_sortino sortino_of_Nil calculate_enhanced_metrics_def Let_def
      dropna_map_Some)

lemma strategy_returns_of_Nil: "strategy_returns_of [] w = []"
  by (simp add: strategy_returns_of_def strategy_returns_series_def pct_change_def ffill_def)

lemma recent_cutoff_claim:
  "nat (max 0 (int (length sr) - min 504 (int (length sr) div 2))) = recent_cutoff_of sr"
  by (simp add: recent_cutoff_of_def)

lemma backtest_combined_score:
  assumes "tradable_series data st \<noteq> []"
  shows "backtest_ma_strategy data w st ''combined_score'' =
     (let sr = strategy_returns_of (tradable_series data st) w;
          all0 = calculate_enhanced_metrics (map Some sr) None
      in if length (recent_returns_of sr) > 0
         then Some (VNum (fadd (fmul (Some 0.3) (sortino_of sr))
                               (fmul (Some 0.7) (sortino_of (recent_returns_of sr)))))
         else all0 ''combined_score'')"
  using assms by (simp add: backtest_ma_strategy_def Let_def get_sortino)

text \<open>
  Claim C2: for a trial whose strategy-return series has \<open>N \<ge> 1\<close>
  observations, the combined score of the result is 0.7 times the Sortino ratio
  of the recent slice plus 0.3 times the Sortino ratio of the whole series, the
  recent slice running from index \<open>max(0, N - min(504, N div 2))\<close> to the end.
  Both ratios are the \<^verbatim>\<open>sortino_ratio\<close> of \<^verbatim>\<open>calculate_enhanced_metrics\<close>,
  which is 0 on an empty slice. For \<open>N = 1\<close> the slice is empty and line 208
  skips the overwrite; the score of the full-history call is then 0, as is the
  blend.
\<close>

theorem C2_combined_score:
  assumes "1 \<le> length (strategy_returns_of (tradable_series data strategy_type) ma_period)"
  shows "backtest_ma_strategy data ma_period strategy_type ''combined_score'' =
     (let sr = strategy_returns_of (tradable_series data strategy_type) ma_period;
          N = int (length sr);
          recent = drop (nat (max 0 (N - min 504 (N div 2)))) sr
      in Some (VNum (fadd (fmul (Some 0.7) (sortino_of recent))
                          (fmul (Some 0.3) (sortino_of sr)))))"
proof -
  define sr where "sr = strategy_returns_of (tradable_series data strategy_type) ma_period"
  have ne: "sr \<noteq> []" using assms unfolding sr_def by auto
  then have tne: "tradable_series data strategy_type \<noteq> []"
    unfolding sr_def using strategy_returns_of_Nil by metis
  have rec: "drop (nat (max 0 (int (length sr) - min 504 (int (length sr) div 2)))) sr
      = recent_returns_of sr"
    by (simp only: recent_cutoff_claim recent_returns_of_def)
  show ?thesis
  proof (cases "length (recent_returns_of sr) > 0")
    case True
    then show ?thesis
      using backtest_combined_score [OF tne, of ma_period] rec
      unfolding sr_def [symmetric] Let_def
      by (simp add: fadd_commute)
  next
    case False
    then have "length sr \<le> recent_cutoff_of sr"
      by (simp add: recent_returns_of_def)
    then have "length sr div 2 = 0" using ne
      by (simp add: recent_cutoff_of_def min_def split: if_splits)
    then have "length sr < 2" by (simp add: div_eq_0_iff)
    then have "length sr = 1" using ne
      by (cases sr) auto
    then obtain r where r: "sr = [r]" by (cases sr) auto
    have "recent_returns_of sr = []" using False by simp
    then show ?thesis
      using backtest_combined_score [OF tne, of ma_period] rec r metrics_combined [of "[r]"]
      unfolding sr_def [symmetric] Let_def
      by (simp add: sortino_of_single sortino_of_Nil)
  qed
qed


lemma strategy_returns_example:
  "strategy_returns_of
     (tradable_series [(Some 1, Some 1), (Some 1, Some 1), (Some 10, Some 1), (Some 9, Some 1),
        (Some (17/2), Some 1), (Some 8, Some 1)] ''BTC_only'') 3
   = [0, 0, - 1/10, - 1/18, 0]"
  by (simp add: tradable_series_def strategy_returns_of_def strategy_returns_series_def
      generate_signals_def raw_signals_def rolling_mean_def window_mean_def upt_rec
      pct_change_def ffill_def fillna_def shift1_def)

text \<open>
  The theorem at six days of BTC prices 1, 1, 10, 9, 8.5, 8 with window 3: five
  strategy returns, the last two of them recent.
\<close>

theorem C2_combined_score_witness:
  "1 \<le> length (strategy_returns_of
     (tradable_series [(Some 1, Some 1), (Some 1, Some 1), (Some 10, Some 1), (Some 9, Some 1),
        (Some (17/2), Some 1), (Some 8, Some 1)] ''BTC_only'') 3)
   \<and> backtest_ma_strategy [(Some 1, Some 1), (Some 1, Some 1), (Some 10, Some 1), (Some 9, Some 1),
        (Some (17/2), Some 1), (Some 8, Some 1)] 3 ''BTC_only'' ''combined_score''
     = Some (VNum (fadd (fmul (Some 0.7) (sortino_of [- 1/18, 0]))
                        (fmul (Some 0.3) (sortino_of [0, 0, - 1/10, - 1/18, 0]))))"
  using C2_combined_score [of "[(Some 1, Some 1), (Some 1, Some 1), (Some 10, Some 1),
        (Some 9, Some 1), (Some (17/2), Some 1), (Some 8, Some 1)]" "''BTC_only''" 3]
  by (simp add: strategy_returns_example Let_def)

section \<open>The backtest of a constant price series\<close>

lemma dropna_replicate_Some: "dropna (replicate k (Some c)) = replicate k c"
  by (induction k) simp_all

lemma sum_list_replicate_real: "sum_list (replicate k (c::real)) = real k * c"
  by (induction k) (simp_all add: algebra_simps)

lemma window_mean_replicate:
  "0 < k \<Longrightarrow> window_mean (replicate k (Some c)) = Some c"
  by (simp add: window_mean_def dropna_replicate_Some sum_list_replicate_real)

lemma nth_rolling_mean_replicate:
  assumes "i < n" and "1 \<le> W"
  shows "rolling_mean W (replicate n (Some c)) ! i = (if i + 1 < W then None else Some c)"
proof (cases "i + 1 < W")
  case True
  then show ?thesis using assms by (simp add: nth_rolling_mean)
next
  case False
  then have "take W (drop (i + 1 - W) (replicate n (Some c))) = replicate W (Some c)"
    using assms by (simp add: min_def)
  then show ?thesis using assms False
    by (simp add: nth_rolling_mean window_mean_replicate)
qed

lemma generate_signals_replicate_nth:
  assumes "1 \<le> W"
  shows "i < n \<Longrightarrow> generate_signals (replicate n (Some c)) W ! i = Some 0"
proof (induction i)
  case 0
  then show ?case using assms
    by (simp add: nth_generate_signals nth_raw_signals nth_rolling_mean_replicate)
next
  case (Suc i)
  then have "generate_signals (replicate n (Some c)) W ! i = Some 0" by simp
  with Suc.prems assms show ?case
    using nth_generate_signals [of "Suc i" "replicate n (Some c)" W]
    by (simp add: nth_raw_signals nth_rolling_mean_replicate)
qed

lemma generate_signals_replicate:
  assumes "1 \<le> W"
  shows "generate_signals (replicate n (Some c)) W = replicate n (Some 0)"
  by (rule nth_equalityI) (simp_all add: generate_signals_replicate_nth [OF assms])

lemma shift1_replicate: "shift1 (replicate (Suc m) x) = None # replicate m x"
proof -
  have "replicate (Suc m) x = replicate m x @ [x]"
    by (simp add: replicate_append_same)
  then have "butlast (replicate (Suc m) x) = replicate m x"
    by (simp only: butlast_snoc)
  then show ?thesis
    unfolding shift1_def by simp
qed

lemma map2_replicate: "map2 f (replicate m a) (replicate m b) = replicate m (f a b)"
  by (induction m) simp_all


lemma zip_replicate_Suc:
  "map2 f (replicate (Suc m) a) (None # replicate m b) = f a None # replicate m (f a b)"
  by (simp add: map2_replicate)

lemma count_trades_constant: "count_trades (replicate (Suc m) (Some 0)) = 1"
  by (simp only: count_trades_def diff_def shift1_replicate zip_replicate_Suc) simp

lemma ffill_from_replicate: "ffill_from prev (replicate n (Some c)) = replicate n (Some c)"
  by (induction n arbitrary: prev) simp_all

lemma pct_change_replicate:
  assumes "c \<noteq> 0"
  shows "pct_change (replicate (Suc m) (Some c)) = None # replicate m (Some 0)"
proof -
  have "pct_change (replicate (Suc m) (Some c))
      = map2 (\<lambda>cur prev. fsub (fdiv cur prev) (Some 1))
          (replicate (Suc m) (Some c)) (None # replicate m (Some c))"
    by (simp only: pct_change_def Let_def ffill_def ffill_from_replicate shift1_replicate)
  also have "\<dots> = None # replicate m (Some 0)"
    using assms by (simp only: zip_replicate_Suc) simp
  finally show ?thesis .
qed

lemma strategy_returns_constant:
  assumes "c \<noteq> 0" and "1 \<le> W"
  shows "strategy_returns_of (replicate (Suc m) (Some c)) W = replicate m 0"
proof -
  have "strategy_returns_series (replicate (Suc m) (Some c)) W
      = map2 fmul (None # replicate m (Some 0)) (None # replicate m (Some 0))"
    by (simp only: strategy_returns_series_def generate_signals_replicate [OF assms(2)]
        pct_change_replicate [OF assms(1)] shift1_replicate)
  also have "\<dots> = None # replicate m (Some 0)"
    by (simp add: map2_replicate)
  finally show ?thesis
    by (simp add: strategy_returns_of_def dropna_replicate_Some)
qed

lemma map_replicate_const: "map f (replicate m a) = replicate m (f a)"
  by (induction m) simp_all

lemma std_zeros: "2 \<le> m \<Longrightarrow> std (replicate m 0) = Some 0"
  by (simp add: std_def Let_def sum_list_replicate_real map_replicate_const)

lemma volatility_zeros: "2 \<le> m \<Longrightarrow> volatility_of (replicate m 0) = Some 0"
  by (simp add: volatility_of_def std_zeros)

lemma sortino_zeros: "sortino_of (replicate m 0) = Some 0"
  by (simp add: sortino_of_def downside_deviation_of_def)

lemma recent_zeros:
  "recent_returns_of (replicate m 0) = replicate (min 504 (m div 2)) 0"
proof -
  have "m - (m - min 504 (m div 2)) = min 504 (m div 2)" by (simp add: min_def)
  then show ?thesis
    by (simp add: recent_returns_of_def recent_cutoff_of_def)
qed


lemma backtest_total_trades:
  assumes "tradable_series data st \<noteq> []"
  shows "backtest_ma_strategy data w st ''total_trades'' =
     Some (VNum (Some (real (count_trades (generate_signals (tradable_series data st) w)))))"
  using assms by (simp add: backtest_ma_strategy_def Let_def)

lemma backtest_volatility:
  assumes "tradable_series data st \<noteq> []"
  shows "backtest_ma_strategy data w st ''volatility'' =
     calculate_enhanced_metrics
       (map Some (strategy_returns_of (tradable_series data st) w)) None ''volatility''"
  using assms by (simp add: backtest_ma_strategy_def Let_def)

lemma metrics_volatility:
  "xs \<noteq> [] \<Longrightarrow>
     calculate_enhanced_metrics (map Some xs) None ''volatility'' = Some (VNum (volatility_of xs))"
  by (simp add: calculate_enhanced_metrics_def dropna_map_Some Let_def)

text \<open>
  Claim C5 says that a constant, strictly positive price series gives zero
  trades, zero volatility and a combined score of 0. The code gives the zero
  volatility and the zero score (from three days on, so that two returns
  exist), and a signal that is 0 on every day and never changes; but it reports
  one trade. The first entry of \<^verbatim>\<open>signals.diff()\<close> is NaN, and line 216
  counts it, for NaN \<^verbatim>\<open>!= 0\<close> is true.
\<close>

theorem C5_constant_series:
  assumes "0 < c" and "1 \<le> W" and "3 \<le> n"
  shows "generate_signals (replicate n (Some c)) W = replicate n (Some 0)
       \<and> backtest_ma_strategy (replicate n (Some c, e)) W ''BTC_only'' ''total_trades''
           = Some (VNum (Some 1))
       \<and> backtest_ma_strategy (replicate n (Some c, e)) W ''BTC_only'' ''volatility''
           = Some (VNum (Some 0))
       \<and> backtest_ma_strategy (replicate n (Some c, e)) W ''BTC_only'' ''combined_score''
           = Some (VNum (Some 0))"
proof -
  from assms(3) obtain m where n: "n = Suc m" and m: "2 \<le> m"
    by (cases n) auto
  have p: "tradable_series (replicate n (Some c, e)) ''BTC_only'' = replicate (Suc m) (Some c)"
    by (simp add: tradable_series_def n)
  have ne: "tradable_series (replicate n (Some c, e)) ''BTC_only'' \<noteq> []"
    by (simp add: p)
  have sr: "strategy_returns_of (replicate (Suc m) (Some c)) W = replicate m 0"
    using assms strategy_returns_constant [of c W m] by linarith
  have m0: "replicate m (0::real) \<noteq> []" using m by auto
  have trades: "backtest_ma_strategy (replicate n (Some c, e)) W ''BTC_only'' ''total_trades''
      = Some (VNum (Some 1))"
    by (simp only: backtest_total_trades [OF ne] p generate_signals_replicate [OF assms(2)]
        count_trades_constant) simp
  have vol: "backtest_ma_strategy (replicate n (Some c, e)) W ''BTC_only'' ''volatility''
      = Some (VNum (Some 0))"
    by (simp only: backtest_volatility [OF ne] p sr metrics_volatility [OF m0]
        volatility_zeros [OF m])
  have "0 < min 504 (m div 2)" using m by (simp add: min_def)
  then have "0 < length (recent_returns_of (replicate m (0::real)))"
    by (simp add: recent_zeros)
  then have score: "backtest_ma_strategy (replicate n (Some c, e)) W ''BTC_only'' ''combined_score''
      = Some (VNum (Some 0))"
    using backtest_combined_score [OF ne, of W, unfolded p sr Let_def]
    by (simp add: sortino_zeros recent_zeros)
  from trades vol score show ?thesis
    by (simp add: generate_signals_replicate [OF assms(2)])
qed

text \<open>The theorem at ten days of the price 100 with window 5.\<close>

theorem C5_constant_series_witness:
  "generate_signals (replicate 10 (Some 100)) 5 = replicate 10 (Some 0)
   \<and> backtest_ma_strategy (replicate 10 (Some 100, Some 50)) 5 ''BTC_only'' ''total_trades''
           = Some (VNum (Some 1))
   \<and> backtest_ma_strategy (replicate 10 (Some 100, Some 50)) 5 ''BTC_only'' ''volatility''
           = Some (VNum (Some 0))
   \<and> backtest_ma_strategy (replicate 10 (Some 100, Some 50)) 5 ''BTC_only'' ''combined_score''
           = Some (VNum (Some 0))"
  using C5_constant_series [of 100 5 10 "Some 50"] by simp

section \<open>Properties of the optimizer\<close>

lemma fold_pool:
  "fold (\<lambda>w futures. if w \<in> set submitted then futures(w \<mapsto> trial w) else futures) completed acc v
     = (if v \<in> set completed \<and> v \<in> set submitted then Some (trial v) else acc v)"
  by (induction completed arbitrary: acc) auto

lemma run_pool_apply:
  "run_pool trial submitted completed v =
     (if v \<in> set completed \<and> v \<in> set submitted then Some (trial v) else None)"
  by (simp add: run_pool_def fold_pool)

lemma fold_consider_unchanged:
  assumes "\<And>w. w \<in> set ws \<Longrightarrow> consider_trial futures b w = b"
  shows "fold (\<lambda>ma_period b. consider_trial futures b ma_period) ws b = b"
  using assms by (induction ws) simp_all

lemma consider_trial_timeout: "futures w = None \<Longrightarrow> consider_trial futures b w = b"
  by (simp add: consider_trial_def)

lemma consider_trial_no_score:
  "futures w = Some r \<Longrightarrow> r ''combined_score'' = None \<Longrightarrow> consider_trial futures b w = b"
  by (simp add: consider_trial_def)

section \<open>A strategy without a usable trial\<close>

lemma select_best_no_usable:
  assumes "\<And>w. w \<in> set ws \<Longrightarrow>
     futures w = None \<or> (\<exists>r. futures w = Some r \<and> r ''combined_score'' = None)"
  shows "select_best futures ws = initial_best"
  unfolding select_best_def
proof (rule fold_consider_unchanged)
  fix w assume "w \<in> set ws"
  from assms [OF this] show "consider_trial futures initial_best w = initial_best"
    by (auto simp add: consider_trial_timeout consider_trial_no_score)
qed

lemma find_optimal_ma_fallback:
  assumes "map_of strategies s = Some name"
    and "select_best (run_pool (\<lambda>w. backtest_ma_strategy data w s) (test_range s) completed)
           (test_range s) = initial_best"
  shows "find_optimal_ma completed data s today = Inr (fallback_result name today)"
  using assms
  by (simp add: find_optimal_ma_def Let_def initial_best_def fallback_result_def get_num_def)

lemma find_optimal_ma_known:
  assumes "map_of strategies s = Some name"
  shows "\<exists>r. find_optimal_ma completed data s today = Inr r"
  using assms by (simp add: find_optimal_ma_def Let_def)

lemma known_keys:
  "\<exists>r. find_optimal_ma c1 data ''BTC_only'' today = Inr r"
  "\<exists>r. find_optimal_ma c2 data ''ETH_only'' today = Inr r"
  "\<exists>r. find_optimal_ma c3 data ''rebalance_50_50'' today = Inr r"
  "\<exists>r. find_optimal_ma c4 data ''rebalance_60_40'' today = Inr r"
  by (simp_all add: find_optimal_ma_def Let_def strategies_def)

lemma find_optimal_ma_no_usable:
  assumes "map_of strategies s = Some name"
    and "\<And>w. w \<in> set (test_range s) \<Longrightarrow>
           w \<notin> set completed \<or> backtest_ma_strategy data w s ''combined_score'' = None"
  shows "find_optimal_ma completed data s today = Inr (fallback_result name today)"
proof (rule find_optimal_ma_fallback [OF assms(1)])
  show "select_best (run_pool (\<lambda>w. backtest_ma_strategy data w s) (test_range s) completed)
           (test_range s) = initial_best"
  proof (rule select_best_no_usable)
    fix w assume "w \<in> set (test_range s)"
    with assms(2) [of w]
    show "run_pool (\<lambda>w. backtest_ma_strategy data w s) (test_range s) completed w = None \<or>
        (\<exists>r. run_pool (\<lambda>w. backtest_ma_strategy data w s) (test_range s) completed w = Some r
           \<and> r ''combined_score'' = None)"
      by (auto simp add: run_pool_apply)
  qed
qed

lemma results_fold:
  "\<exists>r1 r2 r3 r4.
     find_optimal_ma (completed ''BTC_only'') data ''BTC_only'' today = Inr r1 \<and>
     find_optimal_ma (completed ''ETH_only'') data ''ETH_only'' today = Inr r2 \<and>
     find_optimal_ma (completed ''rebalance_50_50'') data ''rebalance_50_50'' today = Inr r3 \<and>
     find_optimal_ma (completed ''rebalance_60_40'') data ''rebalance_60_40'' today = Inr r4 \<and>
     fold (analyze_strategy completed data today) (map fst strategies) Map.empty
       = [''BTC_only'' \<mapsto> StrategyEntry r1, ''ETH_only'' \<mapsto> StrategyEntry r2,
          ''rebalance_50_50'' \<mapsto> StrategyEntry r3, ''rebalance_60_40'' \<mapsto> StrategyEntry r4]"
proof -
  obtain r1 r2 r3 r4 where
    r1: "find_optimal_ma (completed ''BTC_only'') data ''BTC_only'' today = Inr r1" and
    r2: "find_optimal_ma (completed ''ETH_only'') data ''ETH_only'' today = Inr r2" and
    r3: "find_optimal_ma (completed ''rebalance_50_50'') data ''rebalance_50_50'' today = Inr r3" and
    r4: "find_optimal_ma (completed ''rebalance_60_40'') data ''rebalance_60_40'' today = Inr r4"
    using known_keys by blast
  then show ?thesis
    by (simp add: strategies_def analyze_strategy_def)
qed

lemma results_lookup:
  assumes "map_of strategies s = Some name"
  shows "fold (analyze_strategy completed data today) (map fst strategies) Map.empty s
       = (case find_optimal_ma (completed s) data s today of
            Inr r \<Rightarrow> Some (StrategyEntry r) | Inl e \<Rightarrow> None)"
proof -
  from results_fold [of completed data today] obtain r1 r2 r3 r4 where
    r1: "find_optimal_ma (completed ''BTC_only'') data ''BTC_only'' today = Inr r1" and
    r2: "find_optimal_ma (completed ''ETH_only'') data ''ETH_only'' today = Inr r2" and
    r3: "find_optimal_ma (completed ''rebalance_50_50'') data ''rebalance_50_50'' today = Inr r3" and
    r4: "find_optimal_ma (completed ''rebalance_60_40'') data ''rebalance_60_40'' today = Inr r4" and
    f: "fold (analyze_strategy completed data today) (map fst strategies) Map.empty
       = [''BTC_only'' \<mapsto> StrategyEntry r1, ''ETH_only'' \<mapsto> StrategyEntry r2,
          ''rebalance_50_50'' \<mapsto> StrategyEntry r3, ''rebalance_60_40'' \<mapsto> StrategyEntry r4]"
    by blast
  from assms consider "s = ''BTC_only''" | "s = ''ETH_only''" | "s = ''rebalance_50_50''"
    | "s = ''rebalance_60_40''"
    by (auto simp add: strategies_def split: if_splits)
  then show ?thesis
  proof cases
    case 1 then show ?thesis by (simp add: f r1)
  next
    case 2 then show ?thesis by (simp add: f r2)
  next
    case 3 then show ?thesis by (simp add: f r3)
  next
    case 4 then show ?thesis by (simp add: f r4)
  qed
qed

lemma results_dom:
  "dom (fold (analyze_strategy completed data today) (map fst strategies) Map.empty)
     = {''BTC_only'', ''ETH_only'', ''rebalance_50_50'', ''rebalance_60_40''}"
proof -
  from results_fold [of completed data today] obtain r1 r2 r3 r4 where
    f: "fold (analyze_strategy completed data today) (map fst strategies) Map.empty
       = [''BTC_only'' \<mapsto> StrategyEntry r1, ''ETH_only'' \<mapsto> StrategyEntry r2,
          ''rebalance_50_50'' \<mapsto> StrategyEntry r3, ''rebalance_60_40'' \<mapsto> StrategyEntry r4]"
    by blast
  show ?thesis
    by (simp only: f dom_fun_upd dom_empty option.simps if_False insert_commute)
qed

lemma strategy_not_metadata:
  "map_of strategies s = Some name \<Longrightarrow> s \<noteq> ''metadata''"
  by (auto simp add: strategies_def split: if_splits)

lemma run_full_analysis_no_usable:
  assumes "df \<noteq> []" and "map_of strategies s = Some name"
    and "\<And>w. w \<in> set (test_range s) \<Longrightarrow>
           w \<notin> set (completed s) \<or> backtest_ma_strategy (map snd df) w s ''combined_score'' = None"
  shows "run_full_analysis (Inr df) completed today now s
       = Some (StrategyEntry (fallback_result name today))"
  using assms(1) strategy_not_metadata [OF assms(2)]
    find_optimal_ma_no_usable [OF assms(2), of "completed s" "map snd df" today, OF assms(3)]
  by (simp add: run_full_analysis_def Let_def results_lookup [OF assms(2)])

lemma run_full_analysis_dom:
  assumes "df \<noteq> []"
  shows "dom (run_full_analysis (Inr df) completed today now)
       = {''BTC_only'', ''ETH_only'', ''rebalance_50_50'', ''rebalance_60_40'', ''metadata''}"
  using assms by (simp add: run_full_analysis_def Let_def results_dom insert_commute)


lemma flat_year_nonempty: "flat_year \<noteq> []"
  by (simp add: flat_year_def)

text \<open>
  Claim C7, as the specification states it: a strategy all of whose trials fail
  is omitted from the exported result mapping. With a year of data and every
  trial of every strategy timing out, the mapping still has an entry for
  \<^verbatim>\<open>BTC_only\<close>: the fallback result.
\<close>

theorem C7_strategy_without_usable_trial_is_exported:
  "run_full_analysis (Inr flat_year) (\<lambda>strategy_type. []) ''2024-12-31'' ''2024-12-31 09:00:00''
      ''BTC_only''
     = Some (StrategyEntry (fallback_result ''BTC single investment'' ''2024-12-31''))
   \<and> ''BTC_only'' \<in> dom (run_full_analysis (Inr flat_year) (\<lambda>strategy_type. [])
        ''2024-12-31'' ''2024-12-31 09:00:00'')"
proof -
  have "run_full_analysis (Inr flat_year) (\<lambda>strategy_type. []) ''2024-12-31''
      ''2024-12-31 09:00:00'' ''BTC_only''
     = Some (StrategyEntry (fallback_result ''BTC single investment'' ''2024-12-31''))"
    by (rule run_full_analysis_no_usable [OF flat_year_nonempty])
      (simp_all add: strategies_def)
  then show ?thesis by (simp add: domI)
qed

text \<open>
  Claim C7, amended: if every trial of a strategy fails (it times out, or it
  raises and so returns the empty dict, or its result has no combined score),
  the strategy is still exported, with the fallback result: window 20, combined
  score -999, metrics 0, signal not available, strength 50 and empty backtest
  data. The run continues, and the mapping has an entry for each of the four
  strategies and the metadata.
\<close>

theorem C7_no_usable_trial:
  assumes "df \<noteq> []"
    and "map_of strategies s = Some name"
    and "\<forall>w \<in> set (test_range s).
           w \<notin> set (completed s) \<or> backtest_ma_strategy (map snd df) w s ''combined_score'' = None"
  shows "run_full_analysis (Inr df) completed today now s
           = Some (StrategyEntry (fallback_result name today))
       \<and> dom (run_full_analysis (Inr df) completed today now)
           = {''BTC_only'', ''ETH_only'', ''rebalance_50_50'', ''rebalance_60_40'', ''metadata''}"
proof
  show "run_full_analysis (Inr df) completed today now s
      = Some (StrategyEntry (fallback_result name today))"
  proof (rule run_full_analysis_no_usable [OF assms(1) assms(2)])
    fix w assume "w \<in> set (test_range s)"
    with assms(3) show "w \<notin> set (completed s)
        \<or> backtest_ma_strategy (map snd df) w s ''combined_score'' = None"
      by (rule bspec)
  qed
  show "dom (run_full_analysis (Inr df) completed today now)
      = {''BTC_only'', ''ETH_only'', ''rebalance_50_50'', ''rebalance_60_40'', ''metadata''}"
    by (rule run_full_analysis_dom [OF assms(1)])
qed

text \<open>
  The theorem at a year of data where every trial of \<^verbatim>\<open>ETH_only\<close> times out
  and the other strategies complete three trials each.
\<close>

theorem C7_no_usable_trial_witness:
  "run_full_analysis (Inr flat_year)
      (\<lambda>strategy_type. if strategy_type = ''ETH_only'' then [] else [10, 20, 30])
      ''2024-12-31'' ''2024-12-31 09:00:00'' ''ETH_only''
     = Some (StrategyEntry (fallback_result ''ETH single investment'' ''2024-12-31''))
   \<and> dom (run_full_analysis (Inr flat_year)
      (\<lambda>strategy_type. if strategy_type = ''ETH_only'' then [] else [10, 20, 30])
      ''2024-12-31'' ''2024-12-31 09:00:00'')
     = {''BTC_only'', ''ETH_only'', ''rebalance_50_50'', ''rebalance_60_40'', ''metadata''}"
  by (rule C7_no_usable_trial [OF flat_year_nonempty]) (simp_all add: strategies_def)

section \<open>The sweep and the initial best score\<close>

lemma dropna_append: "dropna (xs @ ys) = dropna xs @ dropna ys"
  by (induction xs rule: dropna.induct) simp_all

lemma ffill_from_no_gap: "None \<notin> set xs \<Longrightarrow> ffill_from prev xs = xs"
  by (induction prev xs rule: ffill_from.induct) simp_all

lemma nth_pct_change_no_gap:
  assumes "None \<notin> set p" and "i < length p"
  shows "pct_change p ! i =
     (if i = 0 then None else fsub (fdiv (p ! i) (p ! (i - 1))) (Some 1))"
  using assms
  by (simp add: pct_change_def Let_def ffill_def ffill_from_no_gap nth_shift1)

text \<open>
  The backtest of \<open>spike_then_slide\<close>: for every window from 4 up to
  the length of the flat part, the price is at its moving average on the flat
  days (signal 0) and above it on the last three days (signal 1), so the
  strategy earns nothing on the jump and both small losses after it.
\<close>

lemma spike_btc:
  "tradable_series (spike_then_slide m) ''BTC_only''
     = replicate m (Some 1) @ [Some 1000, Some 999, Some 998]"
  by (simp add: tradable_series_def spike_then_slide_def)

lemma spike_window_flat:
  assumes "i < m" and "w \<le> i + 1"
  shows "take w (drop (i + 1 - w) (replicate m (Some (1::real)) @ t)) = replicate w (Some 1)"
  using assms by (simp add: min_def)

lemma spike_window_tail:
  assumes "j < 3" and "j < w" and "w \<le> m"
  shows "take w (drop (m + j + 1 - w) (replicate m (Some (1::real)) @ [x, y, z]))
       = replicate (w - j - 1) (Some 1) @ take (j + 1) [x, y, z]"
  using assms by (simp add: min_def)

lemma spike_mean_flat:
  assumes "i < m" and "1 \<le> w"
  shows "rolling_mean w (replicate m (Some 1) @ [Some 1000, Some 999, Some 998]) ! i
       = (if i + 1 < w then None else Some 1)"
proof (cases "i + 1 < w")
  case True
  then show ?thesis using assms by (simp add: nth_rolling_mean)
next
  case False
  then have "w \<le> i + 1" by simp
  from spike_window_flat [OF assms(1) this] False assms show ?thesis
    by (simp add: nth_rolling_mean window_mean_replicate)
qed

lemma window_mean_tail:
  "window_mean (replicate k (Some 1) @ map Some ys)
     = (if k + length ys = 0 then None else Some ((real k + sum_list ys) / real (k + length ys)))"
  by (auto simp add: window_mean_def dropna_append dropna_replicate_Some dropna_map_Some
      sum_list_replicate_real)


lemma spike_mean_tail:
  assumes "j < 3" and "4 \<le> w" and "w \<le> m"
  shows "rolling_mean w (replicate m (Some 1) @ [Some 1000, Some 999, Some 998]) ! (m + j)
       = Some ((real (w - j - 1) + sum_list (take (j + 1) [1000, 999, 998])) / real w)"
proof -
  have j: "j < w" using assms by simp
  have "[Some 1000, Some 999, Some (998::real)] = map Some [1000, 999, 998]"
    by simp
  then have "take (j + 1) [Some 1000, Some 999, Some (998::real)]
      = map Some (take (j + 1) [1000, 999, 998])"
    by (simp only: take_map)
  with spike_window_tail [OF assms(1) j assms(3), of "Some 1000" "Some 999" "Some 998"]
  have "take w (drop (m + j + 1 - w) (replicate m (Some (1::real)) @ [Some 1000, Some 999, Some 998]))
       = replicate (w - j - 1) (Some 1) @ map Some (take (j + 1) [1000, 999, 998])"
    by simp
  moreover have "w - j - 1 + length (take (j + 1) [1000, 999, 998::real]) = w"
    using assms by simp
  ultimately show ?thesis
    using assms by (simp add: nth_rolling_mean window_mean_tail del: take_Suc_Cons)
qed

lemma spike_above_tail:
  assumes "j < 3" and "4 \<le> w" and "w \<le> m"
  shows "fgt ((replicate m (Some 1) @ [Some 1000, Some 999, Some 998]) ! (m + j))
           (rolling_mean w (replicate m (Some 1) @ [Some 1000, Some 999, Some 998]) ! (m + j))"
proof -
  have w: "real w \<ge> 4" using assms(2) by simp
  from assms(1) consider "j = 0" | "j = 1" | "j = 2" by linarith
  then show ?thesis
  proof cases
    case 1
    have "real (w - 0 - 1) = real w - 1" using assms(2) by (simp add: of_nat_diff)
    then show ?thesis
      using w spike_mean_tail [OF assms] 1 by (simp add: nth_append field_simps)
  next
    case 2
    have "real (w - 1 - 1) = real w - 2" using assms(2) by (simp add: of_nat_diff)
    then show ?thesis
      using w spike_mean_tail [OF assms] 2 by (simp add: nth_append field_simps)
  next
    case 3
    have "real (w - 2 - 1) = real w - 3" using assms(2) by (simp add: of_nat_diff)
    then show ?thesis
      using w spike_mean_tail [OF assms] 3 by (simp add: nth_append field_simps)
  qed
qed


lemma spike_signal_flat:
  assumes "1 \<le> w"
  shows "i < m \<Longrightarrow>
     generate_signals (replicate m (Some 1) @ [Some 1000, Some 999, Some 998]) w ! i = Some 0"
proof (induction i)
  case 0
  then show ?case using assms
    by (simp add: nth_generate_signals nth_raw_signals spike_mean_flat nth_append)
next
  case (Suc i)
  then have "generate_signals (replicate m (Some 1) @ [Some 1000, Some 999, Some 998]) w ! i
      = Some 0" by simp
  with Suc.prems assms show ?case
    using nth_generate_signals [of "Suc i" "replicate m (Some 1) @ [Some 1000, Some 999, Some 998]" w]
    by (simp add: nth_raw_signals spike_mean_flat nth_append)
qed

lemma spike_signal_tail:
  assumes "j < 3" and "4 \<le> w" and "w \<le> m"
  shows "generate_signals (replicate m (Some 1) @ [Some 1000, Some 999, Some 998]) w ! (m + j)
       = Some 1"
  using assms(1) spike_above_tail [OF assms]
  by (simp add: nth_generate_signals nth_raw_signals)

lemma spike_signals:
  assumes "4 \<le> w" and "w \<le> m"
  shows "generate_signals (replicate m (Some 1) @ [Some 1000, Some 999, Some 998]) w
       = replicate m (Some 0) @ [Some 1, Some 1, Some 1]"
proof (rule nth_equalityI)
  show "length (generate_signals (replicate m (Some 1) @ [Some 1000, Some 999, Some 998]) w)
      = length (replicate m (Some (0::real)) @ [Some 1, Some 1, Some 1])"
    by simp
next
  fix i
  assume "i < length (generate_signals (replicate m (Some 1) @ [Some 1000, Some 999, Some 998]) w)"
  then have i: "i < m + 3" by simp
  show "generate_signals (replicate m (Some 1) @ [Some 1000, Some 999, Some 998]) w ! i
      = (replicate m (Some 0) @ [Some 1, Some 1, Some 1]) ! i"
  proof (cases "i < m")
    case True
    with assms(1) show ?thesis by (simp add: spike_signal_flat nth_append)
  next
    case False
    then obtain j where j: "i = m + j" "j < 3" using i by (metis add_less_cancel_left le_Suc_ex not_le)
    from j(2) consider "j = 0" | "j = 1" | "j = 2" by linarith
    then show ?thesis
      using spike_signal_tail [OF j(2) assms] j(1)
      by cases (simp_all add: nth_append)
  qed
qed

lemma spike_strategy_returns_series:
  assumes "4 \<le> w" and "w \<le> m"
  shows "strategy_returns_series (replicate m (Some 1) @ [Some 1000, Some 999, Some 998]) w
       = None # replicate m (Some 0) @ [Some (- 1 / 1000), Some (- 1 / 999)]"
proof (rule nth_equalityI)
  show "length (strategy_returns_series (replicate m (Some 1) @ [Some 1000, Some 999, Some 998]) w)
      = length (None # replicate m (Some (0::real)) @ [Some (- 1 / 1000), Some (- 1 / 999)])"
    by simp
next
  fix i
  let ?p = "replicate m (Some 1) @ [Some 1000, Some 999, Some (998::real)]"
  assume "i < length (strategy_returns_series ?p w)"
  then have i: "i < m + 3" by simp
  have nogap: "None \<notin> set ?p" by auto
  have sr: "strategy_returns_series ?p w ! i =
      fmul (if i = 0 then None else (replicate m (Some 0) @ [Some 1, Some 1, Some 1]) ! (i - 1))
        (if i = 0 then None else fsub (fdiv (?p ! i) (?p ! (i - 1))) (Some 1))"
    using i by (simp add: nth_strategy_returns_series spike_signals [OF assms]
        nth_pct_change_no_gap [OF nogap])
  consider "i = 0" | "0 < i" "i < m" | "i = m" "0 < m" | "i = m + 1" | "i = m + 2"
    using i assms by linarith
  then show "strategy_returns_series ?p w ! i
      = (None # replicate m (Some 0) @ [Some (- 1 / 1000), Some (- 1 / 999)]) ! i"
  proof cases
    case 1 with sr show ?thesis by simp
  next
    case 2 with sr show ?thesis by (simp add: nth_append nth_Cons')
  next
    case 3 with sr show ?thesis by (simp add: nth_append nth_Cons')
  next
    case 4 with sr show ?thesis by (simp add: nth_append nth_Cons')
  next
    case 5 with sr show ?thesis by (simp add: nth_append nth_Cons')
  qed
qed

lemma spike_strategy_returns:
  assumes "4 \<le> w" and "w \<le> m"
  shows "strategy_returns_of (tradable_series (spike_then_slide m) ''BTC_only'') w
       = replicate m 0 @ [- 1 / 1000, - 1 / 999]"
  by (simp add: strategy_returns_of_def spike_btc spike_strategy_returns_series [OF assms]
      dropna_append dropna_replicate_Some)


text \<open>
  Two losses that are almost equal have a tiny downside deviation, and with a
  negative growth rate the Sortino ratio is far below -999.
\<close>

lemma prod_list_replicate_one: "prod_list (replicate k (1::real)) = 1"
  by (induction k) simp_all

lemma slide_downside:
  "filter (\<lambda>r. r < 0) (replicate k 0 @ [- 1 / 1000, - 1 / 999 :: real]) = [- 1 / 1000, - 1 / 999]"
  by simp

lemma slide_std: "std [- 1 / 1000, - 1 / 999] = Some (sqrt (1 / 1996002000000))"
  by (simp add: std_def Let_def power2_eq_square)

lemma slide_deviation:
  "\<exists>d. downside_deviation_of (replicate k 0 @ [- 1 / 1000, - 1 / 999]) = Some d
       \<and> 0 < d \<and> d \<le> 12 / 999000"
proof -
  let ?d = "sqrt (1 / 1996002000000) * sqrt 252"
  have dd: "downside_deviation_of (replicate k 0 @ [- 1 / 1000, - 1 / 999]) = Some ?d"
    by (simp only: downside_deviation_of_def slide_downside Let_def slide_std) simp
  have pos: "0 < ?d" by simp
  have "?d = sqrt (252 / 1996002000000)"
    by (simp add: real_sqrt_mult [symmetric] del: real_sqrt_mult)
  also have "\<dots> \<le> sqrt ((12 / 999000)\<^sup>2)"
    by (subst real_sqrt_le_iff) (simp add: power2_eq_square)
  also have "\<dots> = 12 / 999000" by simp
  finally have "?d \<le> 12 / 999000" .
  with dd pos show ?thesis by blast
qed

lemma slide_cagr:
  "\<exists>c. cagr_of (replicate k 0 @ [- 1 / 1000, - 1 / 999]) = Some c \<and> c < 0"
proof -
  let ?e = "1 / (real (length (replicate k (0::real) @ [- 1 / 1000, - 1 / 999])) / 252)"
  have tr: "1 + total_return_of (replicate k 0 @ [- 1 / 1000, - 1 / 999]) = 499 / 500"
    by (simp add: total_return_of_def prod_list_replicate_one)
  have e: "0 < ?e" by simp
  have "(499 / 500 :: real) powr ?e < 1"
    using e by (simp only: powr01_less_one)
  then have "(499 / 500 :: real) powr ?e - 1 < 0" by simp
  moreover have "cagr_of (replicate k 0 @ [- 1 / 1000, - 1 / 999])
      = Some ((499 / 500) powr ?e - 1)"
    unfolding cagr_of_def Let_def tr fpow_def by simp
  ultimately show ?thesis by blast
qed

lemma sortino_slide:
  "\<exists>s. sortino_of (replicate k 0 @ [- 1 / 1000, - 1 / 999]) = Some s \<and> s < - 1000"
proof -
  from slide_deviation [of k] obtain d where
    d: "downside_deviation_of (replicate k 0 @ [- 1 / 1000, - 1 / 999]) = Some d"
    "0 < d" "d \<le> 12 / 999000" by blast
  from slide_cagr [of k] obtain c where
    c: "cagr_of (replicate k 0 @ [- 1 / 1000, - 1 / 999]) = Some c" "c < 0" by blast
  have s: "sortino_of (replicate k 0 @ [- 1 / 1000, - 1 / 999]) = Some ((c - 0.02) / d)"
    using d c by (simp add: sortino_of_def)
  have "c - 0.02 < - 1000 * d" using d(3) c(2) by simp
  then have "(c - 0.02) / d < - 1000"
    using d(2) by (simp add: field_simps)
  with s show ?thesis by blast
qed


lemma slide_recent:
  assumes "2 \<le> m"
  shows "\<exists>k. recent_returns_of (replicate m 0 @ [- 1 / 1000, - 1 / 999])
       = replicate k 0 @ [- 1 / 1000, - 1 / 999]"
proof -
  have "recent_cutoff_of (replicate m 0 @ [- 1 / 1000, - 1 / 999]) \<le> m"
    using assms by (simp add: recent_cutoff_of_def min_def; arith)
  then show ?thesis
    by (simp add: recent_returns_of_def)
qed

lemma spike_score:
  assumes "2 \<le> m"
  shows "\<exists>S. S < - 1000 \<and>
     (\<forall>w. 4 \<le> w \<and> w \<le> m \<longrightarrow>
        backtest_ma_strategy (spike_then_slide m) w ''BTC_only'' ''combined_score''
          = Some (VNum (Some S)))"
proof -
  let ?sr = "replicate m 0 @ [- 1 / 1000, - 1 / 999 :: real]"
  from slide_recent [OF assms] obtain k where
    k: "recent_returns_of ?sr = replicate k 0 @ [- 1 / 1000, - 1 / 999]" by blast
  from sortino_slide [of m] obtain s1 where s1: "sortino_of ?sr = Some s1" "s1 < - 1000"
    by blast
  from sortino_slide [of k] obtain s2 where
    s2: "sortino_of (replicate k 0 @ [- 1 / 1000, - 1 / 999]) = Some s2" "s2 < - 1000"
    by blast
  have ne: "tradable_series (spike_then_slide m) ''BTC_only'' \<noteq> []"
    by (simp add: spike_btc)
  have "backtest_ma_strategy (spike_then_slide m) w ''BTC_only'' ''combined_score''
      = Some (VNum (Some (3 / 10 * s1 + 7 / 10 * s2)))" if "4 \<le> w \<and> w \<le> m" for w
  proof -
    from that have sr: "strategy_returns_of (tradable_series (spike_then_slide m) ''BTC_only'') w
        = ?sr"
      by (simp add: spike_strategy_returns)
    show ?thesis
      using backtest_combined_score [OF ne, of w, unfolded sr Let_def k] s1(1) s2(1)
      by simp
  qed
  moreover have "3 / 10 * s1 + 7 / 10 * s2 < - 1000" using s1(2) s2(2) by simp
  ultimately show ?thesis by blast
qed


text \<open>
  What the loop of lines 275-288 computes. Either no future delivered a score
  above the initial -999, and the initial values are left; or the running best
  is a trial with a score above -999 that no earlier trial reached and no
  later trial exceeded.
\<close>

lemma consider_trial_score:
  "consider_trial futures (Some bs, bw, br) w =
     (case trial_score futures w of
        Some s \<Rightarrow> if s > bs then (Some s, w, the (futures w)) else (Some bs, bw, br)
      | None \<Rightarrow> (Some bs, bw, br))"
  by (auto simp add: consider_trial_def trial_score_def
      split: option.splits pyval.splits)

lemma select_best_snoc:
  "select_best futures (ws @ [w]) = consider_trial futures (select_best futures ws) w"
  by (simp add: select_best_def)

lemma trial_score_Some_future:
  "trial_score futures w = Some s \<Longrightarrow> \<exists>r. futures w = Some r"
  by (auto simp add: trial_score_def split: option.splits)

lemma select_best_invariant:
  "(select_best futures ws = initial_best
      \<and> (\<forall>v \<in> set ws. \<forall>t. trial_score futures v = Some t \<longrightarrow> t \<le> - 999))
   \<or> (\<exists>pre w post s r. ws = pre @ w # post
      \<and> select_best futures ws = (Some s, w, r)
      \<and> futures w = Some r \<and> trial_score futures w = Some s \<and> - 999 < s
      \<and> (\<forall>v \<in> set pre. \<forall>t. trial_score futures v = Some t \<longrightarrow> t < s)
      \<and> (\<forall>v \<in> set post. \<forall>t. trial_score futures v = Some t \<longrightarrow> t \<le> s))"
proof (induction ws rule: rev_induct)
  case Nil
  then show ?case by (simp add: select_best_def)
next
  case (snoc x xs)
  from snoc.IH show ?case
  proof (elim disjE conjE exE)
    assume init: "select_best futures xs = initial_best"
      and low: "\<forall>v \<in> set xs. \<forall>t. trial_score futures v = Some t \<longrightarrow> t \<le> - 999"
    show ?thesis
    proof (cases "\<exists>t. trial_score futures x = Some t \<and> - 999 < t")
      case True
      then obtain t where t: "trial_score futures x = Some t" "- 999 < t" by blast
      then obtain r where r: "futures x = Some r" using trial_score_Some_future by blast
      have "select_best futures (xs @ [x]) = (Some t, x, r)"
        using t r by (simp add: select_best_snoc init initial_best_def consider_trial_score)
      moreover have "\<forall>v \<in> set xs. \<forall>u. trial_score futures v = Some u \<longrightarrow> u < t"
        using low t(2) by fastforce
      ultimately have "\<exists>pre w post s r. xs @ [x] = pre @ w # post
          \<and> select_best futures (xs @ [x]) = (Some s, w, r)
          \<and> futures w = Some r \<and> trial_score futures w = Some s \<and> - 999 < s
          \<and> (\<forall>v \<in> set pre. \<forall>t. trial_score futures v = Some t \<longrightarrow> t < s)
          \<and> (\<forall>v \<in> set post. \<forall>t. trial_score futures v = Some t \<longrightarrow> t \<le> s)"
        using t r by (intro exI [of _ xs] exI [of _ x] exI [of _ "[]"] exI [of _ t] exI [of _ r]) simp
      then show ?thesis by blast
    next
      case False
      then have "select_best futures (xs @ [x]) = initial_best"
        by (auto simp add: select_best_snoc init initial_best_def consider_trial_score
            split: option.splits)
      moreover have "\<forall>v \<in> set (xs @ [x]). \<forall>t. trial_score futures v = Some t \<longrightarrow> t \<le> - 999"
        using low False by fastforce
      ultimately show ?thesis by blast
    qed
  next
    fix pre w post s r
    assume xs: "xs = pre @ w # post"
      and best: "select_best futures xs = (Some s, w, r)"
      and fw: "futures w = Some r" and sw: "trial_score futures w = Some s" and s: "- 999 < s"
      and before: "\<forall>v \<in> set pre. \<forall>t. trial_score futures v = Some t \<longrightarrow> t < s"
      and after: "\<forall>v \<in> set post. \<forall>t. trial_score futures v = Some t \<longrightarrow> t \<le> s"
    show ?thesis
    proof (cases "\<exists>t. trial_score futures x = Some t \<and> s < t")
      case True
      then obtain t where t: "trial_score futures x = Some t" "s < t" by blast
      then obtain r' where r': "futures x = Some r'" using trial_score_Some_future by blast
      have "select_best futures (xs @ [x]) = (Some t, x, r')"
        using t r' by (simp add: select_best_snoc best consider_trial_score)
      moreover have "\<forall>v \<in> set xs. \<forall>u. trial_score futures v = Some u \<longrightarrow> u < t"
        using before after sw t(2) unfolding xs by fastforce
      moreover have "- 999 < t" using s t(2) by simp
      ultimately have "\<exists>pre w post s r. xs @ [x] = pre @ w # post
          \<and> select_best futures (xs @ [x]) = (Some s, w, r)
          \<and> futures w = Some r \<and> trial_score futures w = Some s \<and> - 999 < s
          \<and> (\<forall>v \<in> set pre. \<forall>t. trial_score futures v = Some t \<longrightarrow> t < s)
          \<and> (\<forall>v \<in> set post. \<forall>t. trial_score futures v = Some t \<longrightarrow> t \<le> s)"
        using t r' by (intro exI [of _ xs] exI [of _ x] exI [of _ "[]"] exI [of _ t] exI [of _ r']) simp
      then show ?thesis by blast
    next
      case False
      then have "select_best futures (xs @ [x]) = (Some s, w, r)"
        by (auto simp add: select_best_snoc best consider_trial_score split: option.splits)
      moreover have "\<forall>v \<in> set (post @ [x]). \<forall>t. trial_score futures v = Some t \<longrightarrow> t \<le> s"
        using after False by fastforce
      moreover have "xs @ [x] = pre @ w # (post @ [x])" using xs by simp
      ultimately have "\<exists>pre w post s r. xs @ [x] = pre @ w # post
          \<and> select_best futures (xs @ [x]) = (Some s, w, r)
          \<and> futures w = Some r \<and> trial_score futures w = Some s \<and> - 999 < s
          \<and> (\<forall>v \<in> set pre. \<forall>t. trial_score futures v = Some t \<longrightarrow> t < s)
          \<and> (\<forall>v \<in> set post. \<forall>t. trial_score futures v = Some t \<longrightarrow> t \<le> s)"
        using fw sw s before
        by (intro exI [of _ pre] exI [of _ w] exI [of _ "post @ [x]"] exI [of _ s] exI [of _ r])
          simp
      then show ?thesis by blast
    qed
  qed
qed


lemma test_range_single: "test_range ''BTC_only'' = [5..<101]"
  by (simp add: test_range_def)

lemma sweep_bounds: "v \<in> set [5..<101] \<Longrightarrow> 4 \<le> v \<and> v \<le> 100"
  by (simp only: set_upt atLeastLessThan_iff) arith

lemma spike_select_best:
  assumes "100 \<le> m"
  shows "select_best
           (run_pool (\<lambda>w. backtest_ma_strategy (spike_then_slide m) w ''BTC_only'')
              (test_range ''BTC_only'') completed)
           (test_range ''BTC_only'') = initial_best"
proof -
  let ?futures = "run_pool (\<lambda>w. backtest_ma_strategy (spike_then_slide m) w ''BTC_only'')
      (test_range ''BTC_only'') completed"
  from assms have "2 \<le> m" by simp
  from spike_score [OF this] obtain S where S: "S < - 1000"
    and score: "\<And>w. 4 \<le> w \<and> w \<le> m \<Longrightarrow>
        backtest_ma_strategy (spike_then_slide m) w ''BTC_only'' ''combined_score''
          = Some (VNum (Some S))"
    by blast
  have "trial_score ?futures v = Some t \<longrightarrow> t \<le> - 999"
    if "v \<in> set (test_range ''BTC_only'')" for v t
  proof
    assume t: "trial_score ?futures v = Some t"
    from that have "4 \<le> v \<and> v \<le> 100"
      by (simp only: test_range_single sweep_bounds)
    with assms have "4 \<le> v \<and> v \<le> m" by simp
    from score [OF this] t have "t = S"
      by (auto simp add: trial_score_def run_pool_apply split: if_splits)
    with S show "t \<le> - 999" by simp
  qed
  with select_best_invariant [of ?futures "test_range ''BTC_only''"] show ?thesis
    by (elim disjE conjE exE) (simp, fastforce)
qed

lemma spike_find_optimal_ma:
  assumes "100 \<le> m"
  shows "find_optimal_ma completed (spike_then_slide m) ''BTC_only'' today
       = Inr (fallback_result ''BTC single investment'' today)"
  by (rule find_optimal_ma_fallback [OF _ spike_select_best [OF assms]])
    (simp add: strategies_def)

text \<open>
  Claim C1 says that the sweep covers the windows 5 to 100 of a single-asset
  strategy and returns the window whose combined score is highest among the
  trials that delivered one, the first such window on a tie. The range is as
  claimed. On \<open>spike_then_slide 365\<close> every one of the 96 trials delivers the
  same combined score, below -999; none of them passes the test
  \<^verbatim>\<open>score > best_score\<close> against the initial \<^verbatim>\<open>best_score = -999\<close>, and
  the optimizer returns the initial window 20 with score -999 and no result,
  where the claim asks for window 5 with the trials' score.
\<close>

theorem C1_scores_below_sentinel:
  "test_range ''BTC_only'' = [5..<101]
   \<and> (\<exists>S. S < - 999 \<and>
         list_all (\<lambda>w. backtest_ma_strategy (spike_then_slide 365) w ''BTC_only'' ''combined_score''
                        = Some (VNum (Some S))) [5..<101])
   \<and> find_optimal_ma [5..<101] (spike_then_slide 365) ''BTC_only'' ''2024-12-31''
       = Inr (fallback_result ''BTC single investment'' ''2024-12-31'')"
proof (intro conjI)
  show "test_range ''BTC_only'' = [5..<101]" by (rule test_range_single)
  from spike_score [of 365] obtain S where S: "S < - 1000"
    and score: "\<And>w. 4 \<le> w \<and> w \<le> 365 \<Longrightarrow>
        backtest_ma_strategy (spike_then_slide 365) w ''BTC_only'' ''combined_score''
          = Some (VNum (Some S))"
    by auto
  have "list_all (\<lambda>w. backtest_ma_strategy (spike_then_slide 365) w ''BTC_only'' ''combined_score''
                        = Some (VNum (Some S))) [5..<101]"
    unfolding list_all_iff
  proof
    fix w :: nat assume "w \<in> set [5..<101]"
    then have "4 \<le> w \<and> w \<le> 100" by (rule sweep_bounds)
    then have "4 \<le> w \<and> w \<le> 365" by simp
    then show "backtest_ma_strategy (spike_then_slide 365) w ''BTC_only'' ''combined_score''
        = Some (VNum (Some S))" by (rule score)
  qed
  with S show "\<exists>S. S < - 999 \<and>
         list_all (\<lambda>w. backtest_ma_strategy (spike_then_slide 365) w ''BTC_only'' ''combined_score''
                        = Some (VNum (Some S))) [5..<101]"
    by (intro exI [of _ S]) simp
  show "find_optimal_ma [5..<101] (spike_then_slide 365) ''BTC_only'' ''2024-12-31''
       = Inr (fallback_result ''BTC single investment'' ''2024-12-31'')"
    by (rule spike_find_optimal_ma) simp
qed

text \<open>
  Claim C10 says that when several windows attain the same maximal combined
  score, the smallest of them is returned. On \<open>spike_then_slide 365\<close> all
  windows from 5 to 100 attain the same score, so it is maximal and the smallest
  window attaining it is 5; the optimizer returns window 20 and the score -999.
\<close>

theorem C10_tie_below_sentinel:
  "list_all (\<lambda>w. backtest_ma_strategy (spike_then_slide 365) w ''BTC_only'' ''combined_score''
                 = backtest_ma_strategy (spike_then_slide 365) 5 ''BTC_only'' ''combined_score'')
      [5..<101]
   \<and> (\<exists>S. backtest_ma_strategy (spike_then_slide 365) 5 ''BTC_only'' ''combined_score''
             = Some (VNum (Some S)))
   \<and> (\<exists>r. find_optimal_ma [5..<101] (spike_then_slide 365) ''BTC_only'' ''2024-12-31'' = Inr r
         \<and> optimal_ma r = 20 \<and> combined_score r = Some (- 999))"
proof (intro conjI)
  from spike_score [of 365] obtain S where
    score: "\<And>w. 4 \<le> w \<and> w \<le> 365 \<Longrightarrow>
        backtest_ma_strategy (spike_then_slide 365) w ''BTC_only'' ''combined_score''
          = Some (VNum (Some S))"
    by auto
  have five: "backtest_ma_strategy (spike_then_slide 365) 5 ''BTC_only'' ''combined_score''
      = Some (VNum (Some S))"
    by (rule score) simp
  then show "\<exists>S. backtest_ma_strategy (spike_then_slide 365) 5 ''BTC_only'' ''combined_score''
             = Some (VNum (Some S))" by blast
  show "list_all (\<lambda>w. backtest_ma_strategy (spike_then_slide 365) w ''BTC_only'' ''combined_score''
                 = backtest_ma_strategy (spike_then_slide 365) 5 ''BTC_only'' ''combined_score'')
      [5..<101]"
    unfolding list_all_iff five
  proof
    fix w :: nat assume "w \<in> set [5..<101]"
    then have "4 \<le> w \<and> w \<le> 100" by (rule sweep_bounds)
    then have "4 \<le> w \<and> w \<le> 365" by simp
    then show "backtest_ma_strategy (spike_then_slide 365) w ''BTC_only'' ''combined_score''
        = Some (VNum (Some S))" by (rule score)
  qed
  have "find_optimal_ma [5..<101] (spike_then_slide 365) ''BTC_only'' ''2024-12-31''
       = Inr (fallback_result ''BTC single investment'' ''2024-12-31'')"
    by (rule spike_find_optimal_ma) simp
  then show "\<exists>r. find_optimal_ma [5..<101] (spike_then_slide 365) ''BTC_only'' ''2024-12-31'' = Inr r
         \<and> optimal_ma r = 20 \<and> combined_score r = Some (- 999)"
    by (simp add: fallback_result_def)
qed

section \<open>Timeouts and the order of completion\<close>

lemma constant_combined_score:
  assumes "0 < c" and "1 \<le> W" and "3 \<le> n"
  shows "backtest_ma_strategy (replicate n (Some c, e)) W ''BTC_only'' ''combined_score''
       = Some (VNum (Some 0))"
proof -
  from assms(3) obtain m where n: "n = Suc m" and m: "2 \<le> m"
    by (cases n) auto
  have p: "tradable_series (replicate n (Some c, e)) ''BTC_only'' = replicate (Suc m) (Some c)"
    by (simp add: tradable_series_def n)
  have ne: "tradable_series (replicate n (Some c, e)) ''BTC_only'' \<noteq> []"
    by (simp add: p)
  have sr: "strategy_returns_of (replicate (Suc m) (Some c)) W = replicate m 0"
    using assms strategy_returns_constant [of c W m] by linarith
  have "0 < min 504 (m div 2)" using m by (simp add: min_def)
  then have "0 < length (recent_returns_of (replicate m (0::real)))"
    by (simp add: recent_zeros)
  then show ?thesis
    using backtest_combined_score [OF ne, of W, unfolded p sr Let_def]
    by (simp add: sortino_zeros recent_zeros)
qed

lemma consider_trial_keep:
  assumes "\<And>t. trial_score futures w = Some t \<Longrightarrow> t \<le> bs"
  shows "consider_trial futures (Some bs, bw, br) w = (Some bs, bw, br)"
  using assms by (auto simp add: consider_trial_score split: option.splits)

lemma select_best_first:
  assumes a: "futures a = Some r" "trial_score futures a = Some s" "- 999 < s"
    and before: "\<And>w t. w \<in> set pre \<Longrightarrow> trial_score futures w = Some t \<Longrightarrow> t \<le> - 999"
    and after: "\<And>w t. w \<in> set ws \<Longrightarrow> trial_score futures w = Some t \<Longrightarrow> t \<le> s"
  shows "select_best futures (pre @ a # ws) = (Some s, a, r)"
proof -
  have "fold (\<lambda>ma_period b. consider_trial futures b ma_period) pre initial_best = initial_best"
    unfolding initial_best_def
    by (rule fold_consider_unchanged) (rule consider_trial_keep, rule before)
  moreover have "consider_trial futures initial_best a = (Some s, a, r)"
    using a by (simp add: initial_best_def consider_trial_score)
  moreover have "fold (\<lambda>ma_period b. consider_trial futures b ma_period) ws (Some s, a, r)
      = (Some s, a, r)"
    by (rule fold_consider_unchanged) (rule consider_trial_keep, rule after)
  ultimately show ?thesis by (simp add: select_best_def)
qed

lemma run_pool_same_trials:
  assumes "set completed1 \<inter> set submitted = set completed2 \<inter> set submitted"
  shows "run_pool trial submitted completed1 = run_pool trial submitted completed2"
proof (rule ext)
  fix v
  from assms have "(v \<in> set completed1 \<and> v \<in> set submitted)
      = (v \<in> set completed2 \<and> v \<in> set submitted)" by blast
  then show "run_pool trial submitted completed1 v = run_pool trial submitted completed2 v"
    by (simp only: run_pool_apply)
qed

text \<open>
  Claim C9, amended: two sweeps over the same price data and the same strategy
  return the same result, and so the same window and the same score, whenever
  the same trials of the sweep deliver their result within the timeout in both,
  whatever the order in which the pool's workers finish and however the
  completions interleave. The loop of line 275 walks the futures in submission
  order and each future holds the result of its own trial.
\<close>

theorem C9_selection_deterministic:
  assumes "set completed1 \<inter> set (test_range strategy_type)
         = set completed2 \<inter> set (test_range strategy_type)"
  shows "find_optimal_ma completed1 data strategy_type today
       = find_optimal_ma completed2 data strategy_type today"
  by (simp only: find_optimal_ma_def run_pool_same_trials [OF assms])


lemma find_optimal_ma_selected:
  assumes "map_of strategies s = Some name"
    and "select_best (run_pool (\<lambda>w. backtest_ma_strategy data w s) (test_range s) completed)
           (test_range s) = (bs, bw, br)"
  shows "\<exists>r. find_optimal_ma completed data s today = Inr r
       \<and> optimal_ma r = bw \<and> combined_score r = bs"
  using assms by (simp add: find_optimal_ma_def Let_def)

lemma constant_trial_score:
  assumes "1 \<le> w"
    and "trial_score (run_pool (\<lambda>w. backtest_ma_strategy (replicate 10 (Some 100, Some 50)) w
            ''BTC_only'') submitted completed) w = Some t"
  shows "t = 0"
  using assms(2) constant_combined_score [of 100 w 10 "Some 50"] assms(1)
  by (auto simp add: trial_score_def run_pool_apply split: if_splits)

lemma sweep_split_5: "[5..<101] = [] @ 5 # [6..<101]"
  by (simp add: upt_conv_Cons)

lemma sweep_split_6: "[5..<101] = [5] @ 6 # [7..<101]"
  by (simp add: upt_conv_Cons)

lemma sweep_tail_bounds: "w \<in> set [6..<101] \<Longrightarrow> 1 \<le> w" "w \<in> set [7..<101] \<Longrightarrow> 1 \<le> w"
  by (simp_all only: set_upt atLeastLessThan_iff) arith+

text \<open>
  Claim C9, as the specification states it: two sweeps over the same price data
  with the same worker and timeout configuration choose the same window. On ten
  days of the price 100 every trial scores 0. When all trials deliver in time
  the first of them, window 5, is chosen; when the trial of window 5 runs into
  its timeout and the others deliver, window 6 is chosen.
\<close>

theorem C9_timeout_changes_selection:
  "\<exists>r1 r2.
     find_optimal_ma [5..<101] (replicate 10 (Some 100, Some 50)) ''BTC_only'' ''2024-12-31''
       = Inr r1
     \<and> find_optimal_ma [6..<101] (replicate 10 (Some 100, Some 50)) ''BTC_only'' ''2024-12-31''
       = Inr r2
     \<and> optimal_ma r1 = 5 \<and> optimal_ma r2 = 6"
proof -
  let ?trial = "\<lambda>w. backtest_ma_strategy (replicate 10 (Some 100, Some 50)) w ''BTC_only''"
  let ?f1 = "run_pool ?trial [5..<101] [5..<101]"
  let ?f2 = "run_pool ?trial [5..<101] [6..<101]"
  have in5: "(5::nat) \<in> set [5..<101]" and in6: "(6::nat) \<in> set [5..<101]"
    and in6': "(6::nat) \<in> set [6..<101]" and out5: "(5::nat) \<notin> set [6..<101]"
    by (simp_all only: set_upt atLeastLessThan_iff) simp_all
  have score: "?trial w ''combined_score'' = Some (VNum (Some 0))" if "1 \<le> w" for w
    using that by (intro constant_combined_score) simp_all
  have f1: "?f1 5 = Some (?trial 5)" using in5 by (simp only: run_pool_apply) simp
  have sc5: "?trial 5 ''combined_score'' = Some (VNum (Some 0))" by (rule score) simp
  have sc6: "?trial 6 ''combined_score'' = Some (VNum (Some 0))" by (rule score) simp
  have s1: "trial_score ?f1 5 = Some 0"
    unfolding trial_score_def f1 by (simp add: sc5)
  have best1: "select_best ?f1 [5..<101] = (Some 0, 5, ?trial 5)"
  proof (subst sweep_split_5, rule select_best_first [OF f1 s1])
    show "- 999 < (0::real)" by simp
  next
    fix w t assume "w \<in> set []" then show "t \<le> - 999" by simp
  next
    fix w t assume "w \<in> set [6..<101]" and "trial_score ?f1 w = Some t"
    with constant_trial_score sweep_tail_bounds(1) have "t = 0" by blast
    then show "t \<le> 0" by simp
  qed
  have f2: "?f2 6 = Some (?trial 6)" using in6 in6' by (simp only: run_pool_apply) simp
  have f25: "?f2 5 = None" using out5 by (simp only: run_pool_apply) simp
  have s2: "trial_score ?f2 6 = Some 0"
    unfolding trial_score_def f2 by (simp add: sc6)
  have s25: "trial_score ?f2 5 = None"
    unfolding trial_score_def f25 by simp
  have best2: "select_best ?f2 [5..<101] = (Some 0, 6, ?trial 6)"
  proof (subst sweep_split_6, rule select_best_first [OF f2 s2])
    show "- 999 < (0::real)" by simp
  next
    fix w :: nat and t assume "w \<in> set [5]" and t: "trial_score ?f2 w = Some t"
    then have "w = 5" by simp
    with t s25 show "t \<le> - 999" by (simp only:) simp
  next
    fix w t assume "w \<in> set [7..<101]" and "trial_score ?f2 w = Some t"
    with constant_trial_score sweep_tail_bounds(2) have "t = 0" by blast
    then show "t \<le> 0" by simp
  qed
  have name: "map_of strategies ''BTC_only'' = Some ''BTC single investment''"
    by (simp add: strategies_def)
  from find_optimal_ma_selected [OF name, of _ "[5..<101]", unfolded test_range_single, OF best1]
  obtain r1 where r1: "find_optimal_ma [5..<101] (replicate 10 (Some 100, Some 50)) ''BTC_only''
      ''2024-12-31'' = Inr r1" "optimal_ma r1 = 5" by blast
  from find_optimal_ma_selected [OF name, of _ "[6..<101]", unfolded test_range_single, OF best2]
  obtain r2 where r2: "find_optimal_ma [6..<101] (replicate 10 (Some 100, Some 50)) ''BTC_only''
      ''2024-12-31'' = Inr r2" "optimal_ma r2 = 6" by blast
  from r1 r2 show ?thesis by blast
qed

text \<open>
  The theorem at two completion orders of the trials 5, 6 and 7, one of them
  with a repeated and a foreign entry.
\<close>

theorem C9_selection_deterministic_witness:
  "set [5, 6, 7 :: nat] \<inter> set (test_range ''BTC_only'')
     = set [7, 5, 6, 5, 200] \<inter> set (test_range ''BTC_only'')
   \<and> find_optimal_ma [5, 6, 7] [(Some 1, Some 2), (Some 3, Some 4)] ''BTC_only'' ''2024-01-01''
     = find_optimal_ma [7, 5, 6, 5, 200] [(Some 1, Some 2), (Some 3, Some 4)] ''BTC_only''
         ''2024-01-01''"
proof -
  have s: "set [5, 6, 7 :: nat] \<inter> set (test_range ''BTC_only'')
     = set [7, 5, 6, 5, 200] \<inter> set (test_range ''BTC_only'')"
    by (simp only: test_range_single set_upt) auto
  from s C9_selection_deterministic [OF s] show ?thesis by blast
qed

end
